theory Spec2Isabelle
  imports Main "HOL-Library.Sublist"
begin

section \<open>JavaScript values used by the client\<close>

text \<open>
  A JavaScript string is a sequence of UTF-16 code units; \<open>length\<close> is the source's
  \<open>.length\<close>. ASCII literals are written with \<open>str\<close>.
\<close>

type_synonym jsstring = "nat list"

definition str :: "string \<Rightarrow> jsstring" where
  "str s = map of_char s"

text \<open>
  What a \<open>throw\<close> can carry: an \<open>Error\<close> with its message, the runtime's own
  \<open>TypeError\<close> and \<open>SyntaxError\<close>, and \<open>undefined\<close> (a \<open>throw\<close> of a variable that was
  never assigned).
\<close>

datatype thrown = Error jsstring | TypeError jsstring | SyntaxError jsstring | Undefined

text \<open>
  \<open>String.prototype.trim\<close> removes the code units of WhiteSpace and LineTerminator from
  both ends.
\<close>

definition is_whitespace :: "nat \<Rightarrow> bool" where
  "is_whitespace c \<longleftrightarrow>
     c \<in> {9, 10, 11, 12, 13, 32, 160, 5760, 8232, 8233, 8239, 8287, 12288, 65279}
     \<or> (8192 \<le> c \<and> c \<le> 8202)"

definition trim :: "jsstring \<Rightarrow> jsstring" where
  "trim s = rev (dropWhile is_whitespace (rev (dropWhile is_whitespace s)))"

text \<open>The decimal digits of a number, as template literals print it.\<close>

fun show_nat :: "nat \<Rightarrow> jsstring" where
  "show_nat n = (if n < 10 then [48 + n] else show_nat (n div 10) @ [48 + n mod 10])"

declare show_nat.simps [simp del]

text \<open>
  \<open>a || b\<close> on values that are strings or absent: an absent value and the empty string
  are falsy.
\<close>

definition truthy :: "jsstring option \<Rightarrow> bool" where
  "truthy v = (case v of None \<Rightarrow> False | Some t \<Rightarrow> t \<noteq> [])"

definition or_else :: "jsstring option \<Rightarrow> jsstring \<Rightarrow> jsstring" where
  "or_else v d = (case v of None \<Rightarrow> d | Some t \<Rightarrow> if t \<noteq> [] then t else d)"

section \<open>Literal texts of the source\<close>


definition lit_unknown_error_type :: jsstring where \<comment> \<open>Utils.extractErrorMessage: final fallback, 'unknown error type'\<close>
  "lit_unknown_error_type = [26410, 30693, 37679, 35492, 39006, 22411]"

definition lit_busy_search :: jsstring where \<comment> \<open>executeSearch, startConditionSearch: 'a search is in progress, please wait'\<close>
  "lit_busy_search = [27491, 22312, 36914, 34892, 25628, 23563, 65292, 35531, 31245, 20505,
     46, 46, 46]"

definition lit_busy_processing :: jsstring where \<comment> \<open>PatentSearchApp.generateKeywords: 'processing in progress, please wait'\<close>
  "lit_busy_processing = [27491, 22312, 36914, 34892, 34389, 29702, 65292, 35531, 31245,
     20505, 46, 46, 46]"

definition lit_busy_excel :: jsstring where \<comment> \<open>analyzeExcel: 'the system is handling another request, please wait'\<close>
  "lit_busy_excel = [31995, 32113, 27491, 22312, 34389, 29702, 20854, 20182, 35531, 27714,
     65292, 35531, 31245, 20505, 46, 46, 46]"

definition lit_enter_api_key :: jsstring where \<comment> \<open>validateApiKey: 'enter the GPSS API code and verify it first'\<close>
  "lit_enter_api_key = [35531, 20808, 36664, 20837, 71, 80, 83, 83, 32, 65, 80, 73, 39511,
     35657, 30908, 20006, 23436, 25104, 39511, 35657]"

definition lit_verify_api_key :: jsstring where \<comment> \<open>validateApiKey: 'complete the GPSS API verification first'\<close>
  "lit_verify_api_key = [35531, 20808, 23436, 25104, 71, 80, 83, 83, 32, 65, 80, 73, 39511,
     35657]"

definition lit_enter_description :: jsstring where \<comment> \<open>generateKeywords: 'enter a technical description first'\<close>
  "lit_enter_description = [35531, 20808, 36664, 20837, 25216, 34899, 25551, 36848]"

definition lit_too_short :: jsstring where \<comment> \<open>generateKeywords: 'description too short, at least 50 characters'\<close>
  "lit_too_short = [25216, 34899, 25551, 36848, 22826, 30701, 65292, 35531, 25552, 20379,
     26356, 35443, 32048, 30340, 25551, 36848, 65288, 33267, 23569, 53, 48, 20491, 23383,
     65289]"

definition lit_keywords_failed :: jsstring where \<comment> \<open>'keyword generation failed'\<close>
  "lit_keywords_failed = [38364, 37749, 23383, 29983, 25104, 22833, 25943]"

definition lit_keywords_failed_prefix :: jsstring where \<comment> \<open>'keyword generation failed: '\<close>
  "lit_keywords_failed_prefix = [38364, 37749, 23383, 29983, 25104, 22833, 25943, 58, 32]"

definition lit_generated_a :: jsstring where \<comment> \<open>showKeywordSelection: text before the number of groups\<close>
  "lit_generated_a = [25104, 21151, 29983, 25104, 32]"

definition lit_generated_b :: jsstring where \<comment> \<open>showKeywordSelection: text after the number of groups\<close>
  "lit_generated_b = [32, 20491, 38364, 37749, 23383, 32068, 21450, 20854, 21516, 32681,
     35422, 65292, 35531, 25302, 25289, 21040, 25628, 32034, 26781, 20214, 20013]"

definition lit_drag_first :: jsstring where \<comment> \<open>manualSearch: 'drag keywords into the search conditions first'\<close>
  "lit_drag_first = [35531, 20808, 25302, 25289, 38364, 37749, 23383, 21040, 25628, 32034,
     26781, 20214, 20013]"

definition lit_each_condition :: jsstring where \<comment> \<open>manualSearch: 'every search condition must contain keywords'\<close>
  "lit_each_condition = [35531, 30906, 20445, 27599, 20491, 25628, 32034, 26781, 20214,
     37117, 21253, 21547, 38364, 37749, 23383]"

definition lit_no_valid_keywords :: jsstring where \<comment> \<open>manualSearch: 'no valid keywords to search with'\<close>
  "lit_no_valid_keywords = [27794, 26377, 26377, 25928, 30340, 38364, 37749, 23383, 21487,
     29992, 26044, 25628, 32034]"

definition lit_search_failed :: jsstring where \<comment> \<open>'search failed'\<close>
  "lit_search_failed = [27298, 32034, 22833, 25943]"

definition lit_search_failed_prefix :: jsstring where \<comment> \<open>executeSearch: 'search failed: '\<close>
  "lit_search_failed_prefix = [25628, 32034, 22833, 25943, 58, 32]"

definition lit_search_done_a :: jsstring where \<comment> \<open>executeSearch: text before the number found\<close>
  "lit_search_done_a = [25628, 32034, 23436, 25104, 65281, 25214, 21040, 32]"

definition lit_found_b :: jsstring where \<comment> \<open>text after the number found\<close>
  "lit_found_b = [32, 31558, 23560, 21033]"

definition lit_no_condition :: jsstring where \<comment> \<open>conditionSearch: 'enter at least one search condition'\<close>
  "lit_no_condition = [35531, 33267, 23569, 36664, 20837, 19968, 20491, 25628, 32034,
     26781, 20214]"

definition lit_condition_failed :: jsstring where \<comment> \<open>conditionSearch: 'condition search failed'\<close>
  "lit_condition_failed = [26781, 20214, 25628, 32034, 22833, 25943]"

definition lit_condition_done :: jsstring where \<comment> \<open>conditionSearch: 'condition search finished'\<close>
  "lit_condition_done = [26781, 20214, 25628, 32034, 23436, 25104]"

definition lit_condition_done_a :: jsstring where \<comment> \<open>startConditionSearch: text before the number found\<close>
  "lit_condition_done_a = [26781, 20214, 25628, 23563, 23436, 25104, 65281, 25214, 21040, 32]"

definition lit_condition_failed_prefix :: jsstring where \<comment> \<open>startConditionSearch: 'condition query failed: '\<close>
  "lit_condition_failed_prefix = [26781, 20214, 26597, 35426, 22833, 25943, 58, 32]"

definition lit_select_file :: jsstring where \<comment> \<open>analyzeExcel: 'select an Excel file first'\<close>
  "lit_select_file = [35531, 20808, 36984, 25799, 69, 120, 99, 101, 108, 27284, 26696]"

definition lit_excel_done_a :: jsstring where \<comment> \<open>analyzeExcel: text before the processed count\<close>
  "lit_excel_done_a = [69, 120, 99, 101, 108, 20998, 26512, 23436, 25104, 65281, 25104,
     21151, 34389, 29702, 32]"

definition lit_excel_done_b :: jsstring where \<comment> \<open>analyzeExcel: text between the two counts\<close>
  "lit_excel_done_b = [32, 31558, 23560, 21033, 65292, 22833, 25943, 32]"

definition lit_excel_done_c :: jsstring where \<comment> \<open>analyzeExcel: text after the failure count\<close>
  "lit_excel_done_c = [32, 31558]"

definition lit_analysis_failed :: jsstring where \<comment> \<open>analyzeExcel: 'analysis failed'\<close>
  "lit_analysis_failed = [20998, 26512, 22833, 25943]"

definition lit_excel_failed_prefix :: jsstring where \<comment> \<open>analyzeExcel: 'Excel analysis failed: '\<close>
  "lit_excel_failed_prefix = [69, 120, 99, 101, 108, 20998, 26512, 22833, 25943, 58, 32]"





definition lit_no_export_data :: jsstring where \<comment> \<open>exportToExcel: 'no data to export'\<close>
  "lit_no_export_data = [27794, 26377, 21487, 21295, 20986, 30340, 36039, 26009]"

definition lit_excel_downloaded :: jsstring where \<comment> \<open>exportToExcel: 'Excel file downloaded'\<close>
  "lit_excel_downloaded = [69, 120, 99, 101, 108, 25991, 20214, 24050, 19979, 36617, 65281]"

definition lit_export_failed_prefix :: jsstring where \<comment> \<open>exportToExcel: 'Excel export failed: '\<close>
  "lit_export_failed_prefix = [69, 120, 99, 101, 108, 21295, 20986, 22833, 25943, 58, 32]"

definition lit_no_session :: jsstring where \<comment> \<open>chat: 'no current session id'\<close>
  "lit_no_session = [27794, 26377, 30070, 21069, 26371, 35441, 73, 68]"

definition lit_memory_cleared_turn :: jsstring where \<comment> \<open>clearChatMemory: the system turn 'conversation memory cleared'\<close>
  "lit_memory_cleared_turn = [23565, 35441, 35352, 25014, 24050, 28165, 38500, 12290, 65,
     73, 23559, 19981, 20877, 35352, 20303, 20043, 21069, 30340, 23565, 35441, 20839,
     23481, 12290]"

definition lit_memory_cleared :: jsstring where \<comment> \<open>clearChatMemory: 'conversation memory cleared'\<close>
  "lit_memory_cleared = [23565, 35441, 35352, 25014, 24050, 28165, 38500]"

definition lit_clear_failed :: jsstring where \<comment> \<open>clearChatMemory: 'clearing the memory failed'\<close>
  "lit_clear_failed = [28165, 38500, 35352, 25014, 22833, 25943]"

definition lit_session_unset :: jsstring where \<comment> \<open>callQwenAPI: 'session id not set'\<close>
  "lit_session_unset = [26371, 35441, 73, 68, 26410, 35373, 32622]"

definition lit_api_response_error :: jsstring where \<comment> \<open>callQwenAPI: 'API response error'\<close>
  "lit_api_response_error = [65, 80, 73, 22238, 25033, 37679, 35492]"

definition lit_answer_error_prefix :: jsstring where \<comment> \<open>sendChatMessage: 'sorry, an error occurred while answering: '\<close>
  "lit_answer_error_prefix = [25265, 27465, 65292, 22238, 31572, 26178, 30332, 29983,
     37679, 35492, 65306]"

text \<open>
  \<open>Utils.extractErrorMessage\<close> on a thrown value: every error object yields its
  \<open>message\<close>; \<open>undefined\<close> falls through to the last \<open>return\<close>.
\<close>

fun extractErrorMessage :: "thrown \<Rightarrow> jsstring" where
  "extractErrorMessage (Error m) = m"
| "extractErrorMessage (TypeError m) = m"
| "extractErrorMessage (SyntaxError m) = m"
| "extractErrorMessage Undefined = lit_unknown_error_type"

section \<open>Data exchanged with the backend\<close>

record keyword_group =
  keyword :: jsstring
  synonyms :: "jsstring list"

record memory_status =
  memory_count :: nat
  has_db_history :: bool
  has_search_cache :: bool

text \<open>
  A decoded JSON body, with the fields the client reads. \<open>success\<close> is the truthiness
  of the field; an absent field is \<open>None\<close>; \<open>detail\<close>, \<open>message\<close> and \<open>error\<close> are
  strings when present. \<open>errors\<close> is the length of the \<open>errors\<close> array. The patent
  records themselves are opaque (\<open>'p\<close>).
\<close>

record 'p response =
  success :: bool
  detail :: "jsstring option"
  message :: "jsstring option"
  error :: "jsstring option"
  session_id :: "jsstring option"
  keywords_with_synonyms :: "keyword_group list option"
  search_results :: "'p list option"
  results :: "'p list option"
  total_found :: "nat option"
  processed_count :: "nat option"
  errors :: "nat option"
  answer :: "jsstring option"
  memory_status :: "memory_status option"

text \<open>The JSON object \<open>{}\<close>.\<close>

definition empty_object :: "'p response" where
  "empty_object =
     \<lparr>success = False, detail = None, message = None, error = None, session_id = None,
      keywords_with_synonyms = None, search_results = None, results = None,
      total_found = None, processed_count = None, errors = None, answer = None,
      memory_status = None\<rparr>"

text \<open>
  What \<open>fetch\<close> gives back: a rejection (network unreachable), or a response with its
  status line and its body; \<open>body\<close> is the outcome of \<open>response.json()\<close>, \<open>Inl\<close> the
  value it rejects with when the body is not JSON.
\<close>

record 'p http_response =
  status :: nat
  statusText :: jsstring
  body :: "thrown + 'p response"

datatype 'p fetched = Rejected thrown | Responded "'p http_response"

definition ok :: "'p http_response \<Rightarrow> bool" where
  "ok r \<longleftrightarrow> 200 \<le> status r \<and> status r \<le> 299"

section \<open>APIService.request\<close>

text \<open>
  The outcome of \<open>request(endpoint, options)\<close> for what \<open>fetch\<close> gave back. The outer
  \<open>catch\<close> logs and rethrows, so every rejection passes through unchanged. The initial
  value of \<open>errorDetail\<close> is overwritten on both paths of the inner \<open>try\<close>.
\<close>

definition request :: "'p fetched \<Rightarrow> thrown + 'p response" where
  "request f =
     (case f of
        Rejected e \<Rightarrow> Inl e
      | Responded r \<Rightarrow>
          if \<not> ok r then
            Inl (Error
              (case body r of
                 Inr errorData \<Rightarrow>
                   or_else (detail errorData)
                     (or_else (message errorData) (str ''HTTP '' @ show_nat (status r)))
               | Inl e \<Rightarrow> str ''HTTP '' @ show_nat (status r) @ str '': '' @ statusText r))
          else (case body r of Inr data \<Rightarrow> Inr data | Inl e \<Rightarrow> Inl e))"

text \<open>
  \<open>uploadAndAnalyzeExcel\<close> has its own exchange: \<open>errorData?.detail\<close>, else the status
  line; a body that is not JSON counts as \<open>null\<close>.
\<close>

definition uploadAndAnalyzeExcel :: "'p fetched \<Rightarrow> thrown + 'p response" where
  "uploadAndAnalyzeExcel f =
     (case f of
        Rejected e \<Rightarrow> Inl e
      | Responded r \<Rightarrow>
          if \<not> ok r then
            Inl (Error
              (or_else (case body r of Inr errorData \<Rightarrow> detail errorData | Inl e \<Rightarrow> None)
                 (str ''HTTP '' @ show_nat (status r) @ str '': '' @ statusText r)))
          else (case body r of Inr data \<Rightarrow> Inr data | Inl e \<Rightarrow> Inl e))"


section \<open>ConditionBuilder: the condition rows of SearchManager\<close>

datatype search_field = TI | AB | CL

datatype logic_op = AND | OR

text \<open>
  A \<open>.condition-row\<close> element: the \<open>textContent\<close> of each \<open>.dropped-keyword\<close> child of
  its drop zone, in document order, and the values of its two selectors. The hint
  element of the drop zone is display only and is left out.
\<close>

record condition_row =
  dropped :: "jsstring list"
  field_selector :: search_field
  logic_selector :: logic_op

text \<open>
  The tag is built from \<open>`${keyword} <span class="remove-btn">\<times></span>`\<close>; for
  a keyword without markup characters its \<open>textContent\<close> is the keyword, a space and
  the multiplication sign (U+00D7, code unit 215).
\<close>

definition span_text :: "jsstring \<Rightarrow> jsstring" where
  "span_text kw = kw @ [32, 215]"

text \<open>\<open>child.textContent.replace('\<times>', '').trim()\<close>: the first sign is removed.\<close>

definition displayed_keyword :: "jsstring \<Rightarrow> jsstring" where
  "displayed_keyword text = trim (remove1 215 text)"

definition addKeywordToDropZone :: "condition_row \<Rightarrow> jsstring \<Rightarrow> condition_row" where
  "addKeywordToDropZone zone kw =
     (let existingKeywords = map displayed_keyword (dropped zone)
      in if kw \<in> set existingKeywords then zone
         else zone\<lparr>dropped := dropped zone @ [span_text kw]\<rparr>)"

text \<open>
  \<open>handleDrop\<close> passes the drop zone the event fired on; a drop can only hit a row that
  exists, so the command "assign keyword to condition \<open>i\<close>" leaves the rows alone when
  there is no row \<open>i\<close>.
\<close>

definition assign :: "nat \<Rightarrow> jsstring \<Rightarrow> condition_row list \<Rightarrow> condition_row list" where
  "assign i kw rows =
     (if i < length rows then rows[i := addKeywordToDropZone (rows ! i) kw] else rows)"

text \<open>A new row has an empty drop zone and both selectors on their first option.\<close>

definition createConditionRow :: condition_row where
  "createConditionRow = \<lparr>dropped = [], field_selector = TI, logic_selector = AND\<rparr>"

definition addConditionRow :: "condition_row list \<Rightarrow> condition_row list" where
  "addConditionRow rows = rows @ [createConditionRow]"







text \<open>
  An entry of the list \<open>collectSearchConditions\<close> returns; \<open>keyword_list\<close> is its
  \<open>keywords\<close> array.
\<close>

record search_condition =
  keyword_list :: "jsstring list"
  field :: search_field
  logic :: logic_op
  condition_index :: nat

definition collect_row :: "nat \<times> condition_row \<Rightarrow> search_condition list" where
  "collect_row ir =
     (let index = fst ir; row = snd ir
      in if length (dropped row) > 0 then
           (let kws = filter (\<lambda>kw. kw \<noteq> []) (map displayed_keyword (dropped row))
            in if length kws > 0 then
                 [\<lparr>keyword_list = kws, field = field_selector row,
                   logic = logic_selector row, condition_index = index\<rparr>]
               else [])
         else [])"

definition collectSearchConditions :: "condition_row list \<Rightarrow> search_condition list" where
  "collectSearchConditions rows = concat (map collect_row (enumerate 0 rows))"

section \<open>APIService.requestWithRetry\<close>

text \<open>
  The effects of the retry wrapper, in the order they happen: the \<open>i\<close>-th invocation of
  \<open>this.request(endpoint, options)\<close> and \<open>Utils.delay(ms)\<close>.
\<close>

datatype effect = Call nat | Wait int

text \<open>
  \<open>for (let i = 0; i <= maxRetries; i++)\<close> with the \<open>try\<close>/\<open>catch\<close> of the body. The
  parameter \<open>attempt\<close> gives the outcome of the \<open>i\<close>-th invocation of
  \<open>this.request(endpoint, options)\<close>: \<open>Inr\<close> the resolved data, \<open>Inl\<close> the rejection.
  The result is what the wrapper returns or throws, with the effects it performed.
  \<open>maxRetries\<close> and \<open>delay\<close> are whole numbers.
  The statement after the loop, \<open>throw lastError\<close>, is the \<open>else\<close> branch.
\<close>

function requestWithRetry_loop ::
  "(nat \<Rightarrow> thrown + 'a) \<Rightarrow> int \<Rightarrow> nat \<Rightarrow> int \<Rightarrow> thrown \<Rightarrow> (thrown + 'a) \<times> effect list" where
  "requestWithRetry_loop attempt maxRetries i delay lastError =
     (if int i \<le> maxRetries then
        (case attempt i of
           Inr v \<Rightarrow> (Inr v, [Call i])
         | Inl err \<Rightarrow>
             if int i = maxRetries then (Inl err, [Call i])
             else (let (r, tr) = requestWithRetry_loop attempt maxRetries (Suc i) (delay * 2) err
                   in (r, Call i # Wait delay # tr)))
      else (Inl lastError, []))"
  by pat_completeness auto
termination
  by (relation "measure (\<lambda>(attempt, maxRetries, i, delay, lastError). nat (maxRetries + 1 - int i))") auto

declare requestWithRetry_loop.simps [simp del]

text \<open>
  \<open>requestWithRetry(endpoint, options, maxRetries, delay)\<close>, where \<open>fetches i\<close> is what
  \<open>fetch\<close> gives back on the \<open>i\<close>-th attempt. \<open>lastError\<close> starts out \<open>undefined\<close>.
\<close>

definition requestWithRetry ::
  "(nat \<Rightarrow> 'p fetched) \<Rightarrow> int \<Rightarrow> int \<Rightarrow> (thrown + 'p response) \<times> effect list" where
  "requestWithRetry fetches maxRetries delay =
     requestWithRetry_loop (\<lambda>i. request (fetches i)) maxRetries 0 delay Undefined"

text \<open>The attempts made and the waits performed, read off the effects.\<close>

fun calls :: "effect list \<Rightarrow> nat list" where
  "calls [] = []"
| "calls (Call i # es) = i # calls es"
| "calls (Wait d # es) = calls es"

fun waits :: "effect list \<Rightarrow> int list" where
  "waits [] = []"
| "waits (Call i # es) = waits es"
| "waits (Wait d # es) = d # waits es"

section \<open>The client's state\<close>

datatype ui_message = ShowSuccess jsstring | ShowError jsstring | ShowWarning jsstring

text \<open>
  A progress bar: the width of its fill element in percent, and whether an interval
  timer of \<open>uiManager.progressIntervals\<close> is driving it.
\<close>

record progress_bar =
  percent :: nat
  animating :: bool

datatype indicator = ProgressTech | ProgressCondition | ProgressExcel

datatype input_id =
    TechDescription | GpssApiKey
  | Applicant | Inventor | PatentNumber | ApplicationNumber | IpcClass
  | TitleKeyword | AbstractKeyword | ClaimsKeyword
  | ApplicationDateFrom | ApplicationDateTo | PublicationDateFrom | PublicationDateTo

datatype mode = Tech | Condition | Excel

text \<open>\<open>requestData\<close> of \<open>SearchManager.manualSearch\<close>.\<close>

record confirmed_search_data =
  rd_session_id :: "jsstring option"
  rd_description :: jsstring
  rd_generated_keywords :: "jsstring list"
  rd_selected_keywords :: "jsstring list"
  rd_custom_keywords :: "jsstring list"
  rd_user_code :: jsstring
  rd_max_results :: nat
  rd_use_and_or_logic :: bool

text \<open>
  The object \<open>buildConditionSearchParams\<close> returns; \<open>cp_criteria\<close> holds its twelve
  search criteria, \<open>applicant\<close> to \<open>publication_date_to\<close>, in the order of the source.
\<close>

record condition_params =
  cp_user_code :: jsstring
  cp_max_results :: nat
  cp_session_id :: "jsstring option"
  cp_criteria :: "jsstring list"

text \<open>The network exchanges the client starts, with what they send.\<close>

datatype api_call =
    GenerateKeywordsCall jsstring "jsstring option"
  | ConfirmedSearchCall confirmed_search_data
  | ConditionSearchCall condition_params
  | UploadExcelCall jsstring
  | MemoryStatusCall "jsstring option"
  | ClearMemoryCall "jsstring option"

datatype role = User | Assistant | System

text \<open>An entry of \<open>ChatManager.chatHistory\<close> (its \<open>metadata\<close> is display only).\<close>

record chat_turn =
  turn_type :: role
  content :: jsstring
  memoryMode :: bool
  timestamp :: jsstring

text \<open>
  The fields of the four singletons (\<open>app_\<close>: PatentSearchApp, \<open>sm_\<close>: SearchManager,
  \<open>xl_\<close>: ExcelManager, \<open>chat_\<close>: ChatManager), the part of the page they read and
  write, and three logs: the messages shown, the network exchanges started and the
  sheets handed to the spreadsheet library. \<open>null\<close> and \<open>undefined\<close> are \<open>None\<close>,
  and so is the placeholder object \<open>memoryStatus\<close> starts with. The selected file is
  its name. \<open>chat_messages_element\<close> says whether \<open>elements.chatMessages\<close> was found;
  the other elements the code looks up by id are taken to be on the page.
\<close>

record 'p state =
  app_isSearching :: bool
  app_apiKeyVerified :: bool
  app_currentSessionId :: "jsstring option"
  app_searchResults :: "mode \<Rightarrow> 'p list option"
  sm_generatedKeywords :: "keyword_group list"
  sm_currentSessionId :: "jsstring option"
  sm_results_tech :: "'p list option"
  sm_results_condition :: "'p list option"
  xl_selectedFile :: "jsstring option"
  xl_currentAnalysisResults :: "'p response option"
  xl_isProcessing :: bool
  chat_chatEnabled :: bool
  chat_chatHistory :: "chat_turn list"
  chat_currentSessionId :: "jsstring option"
  chat_memoryStatus :: "memory_status option"
  chat_messages_element :: bool
  inputs :: "input_id \<Rightarrow> jsstring"
  rows :: "condition_row list"
  bars :: "indicator \<Rightarrow> progress_bar"
  messages :: "ui_message list"
  network :: "api_call list"
  xlsx_written :: "(mode \<times> 'p list) list"

section \<open>UIManager\<close>

text \<open>
  Messages are logged in the order shown. Of the display calls only those that move a
  progress bar are kept; the ticks of a running timer are not steps of their own: they
  happen while a call waits, and every statement about the end of a call holds for any
  position the bar was left in.
\<close>

definition showSuccess :: "jsstring \<Rightarrow> 'p state \<Rightarrow> 'p state" where
  "showSuccess m s = s\<lparr>messages := messages s @ [ShowSuccess m]\<rparr>"

definition showError :: "jsstring \<Rightarrow> 'p state \<Rightarrow> 'p state" where
  "showError m s = s\<lparr>messages := messages s @ [ShowError m]\<rparr>"

definition getInputValue :: "'p state \<Rightarrow> input_id \<Rightarrow> jsstring" where
  "getInputValue s i = trim (inputs s i)"

definition updateProgress :: "indicator \<Rightarrow> nat \<Rightarrow> 'p state \<Rightarrow> 'p state" where
  "updateProgress i pct s = s\<lparr>bars := (bars s)(i := (bars s i)\<lparr>percent := pct\<rparr>)\<rparr>"

definition startProgressAnimation :: "indicator \<Rightarrow> 'p state \<Rightarrow> 'p state" where
  "startProgressAnimation i s = s\<lparr>bars := (bars s)(i := (bars s i)\<lparr>animating := True\<rparr>)\<rparr>"

definition completeProgress :: "indicator \<Rightarrow> 'p state \<Rightarrow> 'p state" where
  "completeProgress i s = s\<lparr>bars := (bars s)(i := \<lparr>percent = 100, animating = False\<rparr>)\<rparr>"

definition resetProgress :: "indicator \<Rightarrow> 'p state \<Rightarrow> 'p state" where
  "resetProgress i s = s\<lparr>bars := (bars s)(i := \<lparr>percent = 0, animating = False\<rparr>)\<rparr>"

section \<open>ChatManager\<close>

text \<open>
  \<open>updateMemoryStatus\<close> up to its network exchange, and from the answer on. Its own
  \<open>try\<close>/\<open>catch\<close> swallows every failure.
\<close>

definition updateMemoryStatus_begin :: "'p state \<Rightarrow> 'p state" where
  "updateMemoryStatus_begin s =
     (if \<not> truthy (chat_currentSessionId s) then s
      else s\<lparr>network := network s @ [MemoryStatusCall (chat_currentSessionId s)]\<rparr>)"

definition updateMemoryStatus_resume :: "'p fetched \<Rightarrow> 'p state \<Rightarrow> 'p state" where
  "updateMemoryStatus_resume f s =
     (case request f of
        Inl e \<Rightarrow> s
      | Inr r \<Rightarrow> if success r then s\<lparr>chat_memoryStatus := memory_status r\<rparr> else s)"

definition updateMemoryStatus :: "'p fetched \<Rightarrow> 'p state \<Rightarrow> 'p state" where
  "updateMemoryStatus f s =
     (if \<not> truthy (chat_currentSessionId s) then s
      else updateMemoryStatus_resume f (updateMemoryStatus_begin s))"

text \<open>\<open>enableChat\<close> starts \<open>updateMemoryStatus\<close> and does not wait for it.\<close>

definition enableChat :: "'p state \<Rightarrow> 'p state" where
  "enableChat s = updateMemoryStatus_begin (s\<lparr>chat_chatEnabled := True\<rparr>)"

text \<open>\<open>now\<close> is \<open>new Date().toISOString()\<close> at the time of the call.\<close>

definition addChatMessage ::
  "role \<Rightarrow> jsstring \<Rightarrow> bool \<Rightarrow> jsstring \<Rightarrow> 'p state \<Rightarrow> 'p state" where
  "addChatMessage t c m now s =
     (if \<not> chat_messages_element s then s
      else s\<lparr>chat_chatHistory := chat_chatHistory s @
                [\<lparr>turn_type = t, content = c, memoryMode = m, timestamp = now\<rparr>]\<rparr>)"

text \<open>
  \<open>clearChatMemory\<close>, start to end: \<open>confirmed\<close> is the user's answer to the dialog,
  \<open>f_clear\<close> and \<open>f_status\<close> what \<open>fetch\<close> gives back for the two exchanges.
\<close>

definition clearChatMemory ::
  "bool \<Rightarrow> jsstring \<Rightarrow> 'p fetched \<Rightarrow> 'p fetched \<Rightarrow> 'p state \<Rightarrow> 'p state" where
  "clearChatMemory confirmed now f_clear f_status s =
     (if \<not> truthy (chat_currentSessionId s) then showError lit_no_session s
      else if \<not> confirmed then s
      else
        (let s = s\<lparr>network := network s @ [ClearMemoryCall (chat_currentSessionId s)]\<rparr>
         in case request f_clear of
              Inl e \<Rightarrow> showError lit_clear_failed s
            | Inr r \<Rightarrow>
                if success r then
                  showSuccess lit_memory_cleared
                    (updateMemoryStatus f_status
                      (addChatMessage System lit_memory_cleared_turn False now s))
                else showError lit_clear_failed s))"

section \<open>SearchManager\<close>

text \<open>
  An \<open>async\<close> function that waits for the network is split at its \<open>await\<close>:
  \<open>_begin\<close> runs to the point where the exchange has been started, \<open>_resume\<close> from the
  answer to the end. Whatever happens on the page in between happens to the state in
  between.
\<close>

definition sm_generateKeywords_begin ::
  "jsstring \<Rightarrow> jsstring \<Rightarrow> 'p state \<Rightarrow> thrown + (api_call \<times> 'p state)" where
  "sm_generateKeywords_begin fresh description s =
     (if description = [] \<or> length description < 50 then Inl (Error lit_too_short)
      else
        (let s = (if \<not> truthy (sm_currentSessionId s)
                  then s\<lparr>sm_currentSessionId := Some fresh\<rparr> else s);
             c = GenerateKeywordsCall description (sm_currentSessionId s)
         in Inr (c, s\<lparr>network := network s @ [c]\<rparr>)))"

definition sm_generateKeywords_resume ::
  "'p fetched \<Rightarrow> 'p state \<Rightarrow> (thrown + 'p response) \<times> 'p state" where
  "sm_generateKeywords_resume f s =
     (case request f of
        Inl e \<Rightarrow> (Inl e, s)
      | Inr r \<Rightarrow>
          if success r then
            (Inr r, s\<lparr>sm_currentSessionId := session_id r,
                      sm_generatedKeywords :=
                        (case keywords_with_synonyms r of None \<Rightarrow> [] | Some gs \<Rightarrow> gs)\<rparr>)
          else (Inl (Error (or_else (detail r) (or_else (message r) lit_keywords_failed))), s))"



definition extractGeneratedKeywords :: "'p state \<Rightarrow> jsstring list" where
  "extractGeneratedKeywords s = filter (\<lambda>kw. kw \<noteq> []) (map keyword (sm_generatedKeywords s))"

text \<open>\<open>[...new Set(xs)]\<close>: the first occurrence of each element, in order.\<close>

definition unique :: "'a list \<Rightarrow> 'a list" where
  "unique xs = rev (remdups (rev xs))"

definition sm_manualSearch_begin ::
  "jsstring \<Rightarrow> jsstring \<Rightarrow> 'p state \<Rightarrow> thrown + (api_call \<times> 'p state)" where
  "sm_manualSearch_begin description gpssApiKey s =
     (let searchConditions = collectSearchConditions (rows s)
      in if length searchConditions = 0 then Inl (Error lit_drag_first)
         else
           (let emptyConditions = filter (\<lambda>c. length (keyword_list c) = 0) searchConditions
            in if length emptyConditions > 0 then Inl (Error lit_each_condition)
               else
                 (let allKeywords = concat (map keyword_list searchConditions);
                      uniqueKeywords =
                        filter (\<lambda>kw. kw \<noteq> [] \<and> trim kw \<noteq> []) (unique allKeywords)
                  in if length uniqueKeywords = 0 then Inl (Error lit_no_valid_keywords)
                     else
                       (let c = ConfirmedSearchCall
                                  \<lparr>rd_session_id = sm_currentSessionId s,
                                   rd_description = description,
                                   rd_generated_keywords = extractGeneratedKeywords s,
                                   rd_selected_keywords = uniqueKeywords,
                                   rd_custom_keywords = [],
                                   rd_user_code = gpssApiKey,
                                   rd_max_results = 1000,
                                   rd_use_and_or_logic = False\<rparr>
                        in Inr (c, s\<lparr>network := network s @ [c]\<rparr>)))))"

text \<open>
  \<open>response.search_results || response.results || []\<close>: an array is truthy even when
  it is empty.
\<close>

definition result_list :: "'p response \<Rightarrow> 'p list" where
  "result_list r =
     (case search_results r of
        Some xs \<Rightarrow> xs
      | None \<Rightarrow> (case results r of Some ys \<Rightarrow> ys | None \<Rightarrow> []))"

text \<open>
  After the answer, \<open>manualSearch\<close> stores the list and shows the search logic
  (display only).
\<close>

definition sm_manualSearch_resume ::
  "'p fetched \<Rightarrow> 'p state \<Rightarrow> (thrown + 'p response) \<times> 'p state" where
  "sm_manualSearch_resume f s =
     (case request f of
        Inl e \<Rightarrow> (Inl e, s)
      | Inr r \<Rightarrow>
          if success r then (Inr r, s\<lparr>sm_results_tech := Some (result_list r)\<rparr>)
          else (Inl (Error (or_else (detail r) (or_else (message r) lit_search_failed))), s))"

definition hasValidConditions :: "condition_params \<Rightarrow> bool" where
  "hasValidConditions params \<longleftrightarrow> filter (\<lambda>v. length v > 0) (cp_criteria params) \<noteq> []"

definition sm_buildConditionSearchParams :: "jsstring \<Rightarrow> jsstring list \<Rightarrow> 'p state \<Rightarrow> condition_params" where
  "sm_buildConditionSearchParams gpssApiKey formData s =
     \<lparr>cp_user_code = gpssApiKey, cp_max_results = 1000,
      cp_session_id = sm_currentSessionId s, cp_criteria = formData\<rparr>"

definition sm_conditionSearch_begin ::
  "jsstring \<Rightarrow> condition_params \<Rightarrow> 'p state \<Rightarrow> thrown + (api_call \<times> 'p state)" where
  "sm_conditionSearch_begin fresh searchParams s =
     (if \<not> hasValidConditions searchParams then Inl (Error lit_no_condition)
      else
        (let s = (if \<not> truthy (sm_currentSessionId s)
                  then s\<lparr>sm_currentSessionId := Some fresh\<rparr> else s);
             c = ConditionSearchCall (searchParams\<lparr>cp_session_id := sm_currentSessionId s\<rparr>)
         in Inr (c, s\<lparr>network := network s @ [c]\<rparr>)))"

record 'p condition_result =
  patents :: "'p list"
  total_n :: nat
  result_message :: jsstring

definition sm_conditionSearch_resume ::
  "'p fetched \<Rightarrow> 'p state \<Rightarrow> (thrown + 'p condition_result) \<times> 'p state" where
  "sm_conditionSearch_resume f s =
     (case request f of
        Inl e \<Rightarrow> (Inl e, s)
      | Inr r \<Rightarrow>
          if success r then
            (let rs = (case results r of Some ys \<Rightarrow> ys | None \<Rightarrow> [])
             in (Inr \<lparr>patents = rs,
                      total_n = (case total_found r of Some n \<Rightarrow> n | None \<Rightarrow> 0),
                      result_message = or_else (message r) lit_condition_done\<rparr>,
                 s\<lparr>sm_results_condition := Some rs\<rparr>))
          else (Inl (Error (or_else (detail r) (or_else (message r) lit_condition_failed))), s))"

text \<open>
  \<open>this.searchResults[type]\<close> of SearchManager, which has the keys \<open>tech\<close> and
  \<open>condition\<close> only.
\<close>

fun sm_searchResults :: "'p state \<Rightarrow> mode \<Rightarrow> 'p list option" where
  "sm_searchResults s Tech = sm_results_tech s"
| "sm_searchResults s Condition = sm_results_condition s"
| "sm_searchResults s Excel = None"

text \<open>
  \<open>exportToExcel\<close>: the guard, then the records go to the spreadsheet library
  (\<open>XLSX.writeFile\<close>); how the sheet's columns are filled is left to that side.
\<close>

definition sm_exportToExcel :: "mode \<Rightarrow> 'p state \<Rightarrow> (thrown + unit) \<times> 'p state" where
  "sm_exportToExcel t s =
     (case sm_searchResults s t of
        None \<Rightarrow> (Inl (Error lit_no_export_data), s)
      | Some rs \<Rightarrow>
          if length rs = 0 then (Inl (Error lit_no_export_data), s)
          else (Inr (), s\<lparr>xlsx_written := xlsx_written s @ [(t, rs)]\<rparr>))"

section \<open>PatentSearchApp\<close>

definition validateApiKey :: "'p state \<Rightarrow> bool \<times> 'p state" where
  "validateApiKey s =
     (let apiKey = getInputValue s GpssApiKey
      in if apiKey = [] then (False, showError lit_enter_api_key s)
         else if \<not> app_apiKeyVerified s then (False, showError lit_verify_api_key s)
         else (True, s))"

subsection \<open>Keyword generation\<close>

definition generateKeywords_catch :: "thrown \<Rightarrow> 'p state \<Rightarrow> 'p state" where
  "generateKeywords_catch e s = showError (lit_keywords_failed_prefix @ extractErrorMessage e) s"

definition generateKeywords_finally :: "'p state \<Rightarrow> 'p state" where
  "generateKeywords_finally s = resetProgress ProgressTech (s\<lparr>app_isSearching := False\<rparr>)"

text \<open>
  The first component is the exchange the call is waiting for, \<open>None\<close> when it has
  returned. \<open>fresh\<close> is what \<open>Utils.generateSessionId()\<close> would return.
\<close>

definition app_generateKeywords_begin ::
  "jsstring \<Rightarrow> 'p state \<Rightarrow> api_call option \<times> 'p state" where
  "app_generateKeywords_begin fresh s =
     (case validateApiKey s of
        (False, s) \<Rightarrow> (None, s)
      | (True, s) \<Rightarrow>
          if app_isSearching s then (None, showError lit_busy_processing s)
          else
            (let description = getInputValue s TechDescription
             in if description = [] then
                  (None, generateKeywords_finally (showError lit_enter_description s))
                else if length description < 50 then
                  (None, generateKeywords_finally (showError lit_too_short s))
                else
                  (let s = s\<lparr>app_isSearching := True\<rparr>;
                       s = updateProgress ProgressTech 10 s;
                       s = startProgressAnimation ProgressTech s
                   in case sm_generateKeywords_begin fresh description s of
                        Inl e \<Rightarrow> (None, generateKeywords_finally (generateKeywords_catch e s))
                      | Inr (c, s) \<Rightarrow> (Some c, s))))"

definition app_generateKeywords_resume :: "'p fetched \<Rightarrow> 'p state \<Rightarrow> 'p state" where
  "app_generateKeywords_resume f s =
     (case sm_generateKeywords_resume f s of
        (Inl e, s) \<Rightarrow> generateKeywords_finally (generateKeywords_catch e s)
      | (Inr r, s) \<Rightarrow>
          generateKeywords_finally
            (if success r then
               (let s = s\<lparr>app_currentSessionId := session_id r,
                          sm_currentSessionId := session_id r,
                          chat_currentSessionId := session_id r\<rparr>;
                    s = completeProgress ProgressTech s
                in showSuccess
                     (lit_generated_a
                        @ show_nat (case keywords_with_synonyms r of
                                      None \<Rightarrow> 0 | Some gs \<Rightarrow> length gs)
                        @ lit_generated_b) s)
             else generateKeywords_catch
                    (Error (or_else (detail r) (or_else (message r) lit_keywords_failed))) s))"

subsection \<open>Technical-description search\<close>

definition executeSearch_catch :: "thrown \<Rightarrow> 'p state \<Rightarrow> 'p state" where
  "executeSearch_catch e s = showError (lit_search_failed_prefix @ extractErrorMessage e) s"

definition executeSearch_finally :: "'p state \<Rightarrow> 'p state" where
  "executeSearch_finally s = resetProgress ProgressTech (s\<lparr>app_isSearching := False\<rparr>)"

definition executeSearch_begin :: "'p state \<Rightarrow> api_call option \<times> 'p state" where
  "executeSearch_begin s =
     (if app_isSearching s then (None, showError lit_busy_search s)
      else
        (let description = getInputValue s TechDescription;
             gpssApiKey = getInputValue s GpssApiKey;
             s = s\<lparr>app_isSearching := True\<rparr>;
             s = updateProgress ProgressTech 30 s;
             s = startProgressAnimation ProgressTech s
         in case sm_manualSearch_begin description gpssApiKey s of
              Inl e \<Rightarrow> (None, executeSearch_finally (executeSearch_catch e s))
            | Inr (c, s) \<Rightarrow> (Some c, s)))"

text \<open>
  \<open>completeTechSearch\<close> stores the list and renders it. \<open>render rs\<close> is the exception
  \<open>generatePatentListHtml\<close> raises on the records \<open>rs\<close>, if any; it is not called on
  an empty list.
\<close>

definition completeTechSearch ::
  "('p list \<Rightarrow> thrown option) \<Rightarrow> 'p response \<Rightarrow> 'p state \<Rightarrow> thrown option \<times> 'p state" where
  "completeTechSearch render r s =
     (let s = s\<lparr>app_searchResults := (app_searchResults s)(Tech := Some (result_list r))\<rparr>
      in if length (result_list r) = 0 then (None, s) else (render (result_list r), s))"

definition executeSearch_resume ::
  "('p list \<Rightarrow> thrown option) \<Rightarrow> 'p fetched \<Rightarrow> 'p state \<Rightarrow> 'p state" where
  "executeSearch_resume render f s =
     (case sm_manualSearch_resume f s of
        (Inl e, s) \<Rightarrow> executeSearch_finally (executeSearch_catch e s)
      | (Inr r, s) \<Rightarrow>
          executeSearch_finally
            (if success r then
               (case completeTechSearch render r (completeProgress ProgressTech s) of
                  (Some e, s) \<Rightarrow> executeSearch_catch e s
                | (None, s) \<Rightarrow>
                    showSuccess
                      (lit_search_done_a
                         @ show_nat (case total_found r of None \<Rightarrow> 0 | Some n \<Rightarrow> n)
                         @ lit_found_b)
                      (if \<not> chat_chatEnabled s then enableChat s else s))
             else executeSearch_catch
                    (Error (or_else (detail r) (or_else (message r) lit_search_failed))) s))"

text \<open>The whole call, when nothing else happens on the page while it waits.\<close>

definition executeSearch ::
  "('p list \<Rightarrow> thrown option) \<Rightarrow> 'p fetched \<Rightarrow> 'p state \<Rightarrow> 'p state" where
  "executeSearch render f s =
     (case executeSearch_begin s of
        (None, s) \<Rightarrow> s
      | (Some c, s) \<Rightarrow> executeSearch_resume render f s)"

definition app_manualSearch_begin :: "'p state \<Rightarrow> api_call option \<times> 'p state" where
  "app_manualSearch_begin s =
     (case validateApiKey s of
        (False, s) \<Rightarrow> (None, s)
      | (True, s) \<Rightarrow> executeSearch_begin s)"

subsection \<open>Condition search\<close>

definition conditionSearch_catch :: "thrown \<Rightarrow> 'p state \<Rightarrow> 'p state" where
  "conditionSearch_catch e s =
     showError (lit_condition_failed_prefix @ extractErrorMessage e) s"

definition conditionSearch_finally :: "'p state \<Rightarrow> 'p state" where
  "conditionSearch_finally s =
     resetProgress ProgressCondition (s\<lparr>app_isSearching := False\<rparr>)"

definition app_buildConditionSearchParams :: "'p state \<Rightarrow> condition_params" where
  "app_buildConditionSearchParams s =
     sm_buildConditionSearchParams (getInputValue s GpssApiKey)
       (map (getInputValue s)
          [Applicant, Inventor, PatentNumber, ApplicationNumber, IpcClass, TitleKeyword,
           AbstractKeyword, ClaimsKeyword, ApplicationDateFrom, ApplicationDateTo,
           PublicationDateFrom, PublicationDateTo]) s"

definition startConditionSearch_begin ::
  "jsstring \<Rightarrow> jsstring \<Rightarrow> 'p state \<Rightarrow> api_call option \<times> 'p state" where
  "startConditionSearch_begin fresh fresh2 s =
     (case validateApiKey s of
        (False, s) \<Rightarrow> (None, s)
      | (True, s) \<Rightarrow>
          if app_isSearching s then (None, showError lit_busy_search s)
          else
            (let s = (if \<not> truthy (app_currentSessionId s)
                      then s\<lparr>app_currentSessionId := Some fresh,
                             sm_currentSessionId := Some fresh,
                             chat_currentSessionId := Some fresh\<rparr>
                      else s);
                 searchParams = app_buildConditionSearchParams s;
                 s = s\<lparr>app_isSearching := True\<rparr>;
                 s = updateProgress ProgressCondition 30 s;
                 s = startProgressAnimation ProgressCondition s
             in case sm_conditionSearch_begin fresh2 searchParams s of
                  Inl e \<Rightarrow> (None, conditionSearch_finally (conditionSearch_catch e s))
                | Inr (c, s) \<Rightarrow> (Some c, s)))"

definition completeConditionSearch ::
  "('p list \<Rightarrow> thrown option) \<Rightarrow> 'p condition_result \<Rightarrow> 'p state \<Rightarrow> thrown option \<times> 'p state" where
  "completeConditionSearch render searchResults s =
     (let s = s\<lparr>app_searchResults :=
                  (app_searchResults s)(Condition := Some (patents searchResults))\<rparr>
      in if length (patents searchResults) = 0 then (None, s)
         else (render (patents searchResults), s))"

definition startConditionSearch_resume ::
  "('p list \<Rightarrow> thrown option) \<Rightarrow> 'p fetched \<Rightarrow> 'p state \<Rightarrow> 'p state" where
  "startConditionSearch_resume render f s =
     (case sm_conditionSearch_resume f s of
        (Inl e, s) \<Rightarrow> conditionSearch_finally (conditionSearch_catch e s)
      | (Inr searchResults, s) \<Rightarrow>
          conditionSearch_finally
            (case completeConditionSearch render searchResults
                    (completeProgress ProgressCondition s) of
               (Some e, s) \<Rightarrow> conditionSearch_catch e s
             | (None, s) \<Rightarrow>
                 (let s = showSuccess
                            (lit_condition_done_a @ show_nat (total_n searchResults)
                               @ lit_found_b) s
                  in if \<not> chat_chatEnabled s then enableChat s else s)))"

definition startConditionSearch ::
  "jsstring \<Rightarrow> jsstring \<Rightarrow> ('p list \<Rightarrow> thrown option) \<Rightarrow> 'p fetched \<Rightarrow> 'p state \<Rightarrow> 'p state" where
  "startConditionSearch fresh fresh2 render f s =
     (case startConditionSearch_begin fresh fresh2 s of
        (None, s) \<Rightarrow> s
      | (Some c, s) \<Rightarrow> startConditionSearch_resume render f s)"

subsection \<open>Export\<close>

definition app_exportToExcel :: "mode \<Rightarrow> 'p state \<Rightarrow> 'p state" where
  "app_exportToExcel t s =
     (case sm_exportToExcel t s of
        (Inl e, s) \<Rightarrow> showError (lit_export_failed_prefix @ extractErrorMessage e) s
      | (Inr u, s) \<Rightarrow> showSuccess lit_excel_downloaded s)"

section \<open>ExcelManager.analyzeExcel\<close>

definition analyzeExcel_catch :: "thrown \<Rightarrow> 'p state \<Rightarrow> 'p state" where
  "analyzeExcel_catch e s = showError (lit_excel_failed_prefix @ extractErrorMessage e) s"

definition analyzeExcel_finally :: "'p state \<Rightarrow> 'p state" where
  "analyzeExcel_finally s = resetProgress ProgressExcel (s\<lparr>xl_isProcessing := False\<rparr>)"

definition analyzeExcel_begin :: "'p state \<Rightarrow> api_call option \<times> 'p state" where
  "analyzeExcel_begin s =
     (case xl_selectedFile s of
        None \<Rightarrow> (None, showError lit_select_file s)
      | Some file \<Rightarrow>
          if xl_isProcessing s then (None, showError lit_busy_excel s)
          else
            (let s = s\<lparr>xl_isProcessing := True\<rparr>;
                 s = updateProgress ProgressExcel 10 s;
                 s = startProgressAnimation ProgressExcel s
             in (Some (UploadExcelCall file),
                 s\<lparr>network := network s @ [UploadExcelCall file]\<rparr>)))"

text \<open>
  \<open>completeExcelAnalysis\<close>: \<open>render\<close> stands for the two display functions, which run
  before the results are published to \<open>window.patentSearchApp\<close>.
\<close>

definition completeExcelAnalysis ::
  "('p list \<Rightarrow> thrown option) \<Rightarrow> 'p response \<Rightarrow> 'p state \<Rightarrow> thrown option \<times> 'p state" where
  "completeExcelAnalysis render data s =
     (let s = s\<lparr>xl_currentAnalysisResults := Some data\<rparr>;
          shown = (case results data of None \<Rightarrow> [] | Some rs \<Rightarrow> rs)
      in case (if length shown = 0 then None else render shown) of
           Some e \<Rightarrow> (Some e, s)
         | None \<Rightarrow>
             (let s = s\<lparr>app_searchResults := (app_searchResults s)(Excel := results data)\<rparr>
              in (None, if \<not> chat_chatEnabled s then enableChat s else s)))"

definition analyzeExcel_resume ::
  "('p list \<Rightarrow> thrown option) \<Rightarrow> 'p fetched \<Rightarrow> 'p state \<Rightarrow> 'p state" where
  "analyzeExcel_resume render f s =
     analyzeExcel_finally
       (case uploadAndAnalyzeExcel f of
          Inl e \<Rightarrow> analyzeExcel_catch e s
        | Inr r \<Rightarrow>
            if success r then
              (case completeExcelAnalysis render r (completeProgress ProgressExcel s) of
                 (Some e, s) \<Rightarrow> analyzeExcel_catch e s
               | (None, s) \<Rightarrow>
                   showSuccess
                     (lit_excel_done_a
                        @ (case processed_count r of
                             None \<Rightarrow> str ''undefined'' | Some n \<Rightarrow> show_nat n)
                        @ lit_excel_done_b
                        @ show_nat (case errors r of None \<Rightarrow> 0 | Some n \<Rightarrow> n)
                        @ lit_excel_done_c) s)
            else analyzeExcel_catch (Error (or_else (message r) lit_analysis_failed)) s)"

definition analyzeExcel ::
  "('p list \<Rightarrow> thrown option) \<Rightarrow> 'p fetched \<Rightarrow> 'p state \<Rightarrow> 'p state" where
  "analyzeExcel render f s =
     (case analyzeExcel_begin s of
        (None, s) \<Rightarrow> s
      | (Some c, s) \<Rightarrow> analyzeExcel_resume render f s)"

text \<open>
  A workflow is idle when its guard flag is clear and its progress bar is at rest: no
  timer, width zero.
\<close>

definition at_rest :: progress_bar where
  "at_rest = \<lparr>percent = 0, animating = False\<rparr>"

definition search_idle :: "indicator \<Rightarrow> 'p state \<Rightarrow> bool" where
  "search_idle i s \<longleftrightarrow> \<not> app_isSearching s \<and> bars s i = at_rest"

definition excel_idle :: "'p state \<Rightarrow> bool" where
  "excel_idle s \<longleftrightarrow> \<not> xl_isProcessing s \<and> bars s ProgressExcel = at_rest"

text \<open>
  A page freshly loaded, with the field values the constructors set, the session id
  \<open>sid\<close> handed to SearchManager and ChatManager, one empty condition row, all bars at
  rest and the logs empty.
\<close>

definition page_loaded :: "jsstring \<Rightarrow> 'p state" where
  "page_loaded sid =
     \<lparr>app_isSearching = False, app_apiKeyVerified = False, app_currentSessionId = Some sid,
      app_searchResults = (\<lambda>m. None), sm_generatedKeywords = [],
      sm_currentSessionId = Some sid, sm_results_tech = None, sm_results_condition = None,
      xl_selectedFile = None, xl_currentAnalysisResults = None, xl_isProcessing = False,
      chat_chatEnabled = False, chat_chatHistory = [], chat_currentSessionId = Some sid,
      chat_memoryStatus = None, chat_messages_element = True, inputs = (\<lambda>i. []),
      rows = [createConditionRow], bars = (\<lambda>i. at_rest), messages = [], network = [],
      xlsx_written = []\<rparr>"

text \<open>
  A loaded page ready for every workflow: the API key typed and verified, the keyword
  wafer dropped on the condition row, the applicant criterion filled in, and a file
  selected.
\<close>

definition ready_page :: "'p state" where
  "ready_page =
     (page_loaded (str ''s1''))
       \<lparr>app_apiKeyVerified := True,
        xl_selectedFile := Some (str ''a.xlsx''),
        inputs := (\<lambda>i. [])(GpssApiKey := str ''0123456789abcdef'', Applicant := str ''acme''),
        rows := [\<lparr>dropped = [span_text (str ''wafer'')], field_selector = AB,
                  logic_selector = AND\<rparr>]\<rparr>"

section \<open>Properties of the retry wrapper\<close>

lemma loop_calls:
  "int i \<le> m \<Longrightarrow>
   \<exists>k. i \<le> k \<and> int k \<le> m \<and> calls (snd (requestWithRetry_loop rq m i d e)) = [i..<Suc k]
     \<and> (\<forall>j. i \<le> j \<and> j < k \<longrightarrow> isl (rq j))
     \<and> (case fst (requestWithRetry_loop rq m i d e) of
           Inr v \<Rightarrow> rq k = Inr v
         | Inl x \<Rightarrow> int k = m \<and> rq k = Inl x)"
proof (induction rq m i d e rule: requestWithRetry_loop.induct)
  case (1 rq m i d e)
  show ?case
  proof (cases "rq i")
    case (Inr v)
    with "1.prems" show ?thesis
      by (subst (1 2) requestWithRetry_loop.simps) (auto intro!: exI[of _ i])
  next
    case (Inl x)
    show ?thesis
    proof (cases "int i = m")
      case True
      with Inl "1.prems" show ?thesis
        by (subst (1 2) requestWithRetry_loop.simps) (auto intro!: exI[of _ i])
    next
      case False
      with "1.prems" have le: "int (Suc i) \<le> m" by simp
      from "1.IH"[OF "1.prems" Inl False le]
      obtain k where k: "Suc i \<le> k" "int k \<le> m"
        "calls (snd (requestWithRetry_loop rq m (Suc i) (d * 2) x)) = [Suc i..<Suc k]"
        "\<forall>j. Suc i \<le> j \<and> j < k \<longrightarrow> isl (rq j)"
        "(case fst (requestWithRetry_loop rq m (Suc i) (d * 2) x) of
           Inr v \<Rightarrow> rq k = Inr v
         | Inl x \<Rightarrow> int k = m \<and> rq k = Inl x)" by blast
      have step: "requestWithRetry_loop rq m i d e =
          (fst (requestWithRetry_loop rq m (Suc i) (d * 2) x),
           Call i # Wait d # snd (requestWithRetry_loop rq m (Suc i) (d * 2) x))"
        using Inl False "1.prems"
        by (subst requestWithRetry_loop.simps) (simp add: case_prod_beta)
      have "\<forall>j. i \<le> j \<and> j < k \<longrightarrow> isl (rq j)"
      proof (intro allI impI)
        fix j assume "i \<le> j \<and> j < k"
        then show "isl (rq j)" using k(4) Inl by (cases "j = i") auto
      qed
      moreover have "[i..<Suc k] = i # [Suc i..<Suc k]" using k(1) by (simp add: upt_conv_Cons)
      ultimately show ?thesis using k step by (intro exI[of _ k]) auto
    qed
  qed
qed

lemma loop_all_fail:
  "int i \<le> m \<Longrightarrow> \<forall>j. i \<le> j \<and> int j \<le> m \<longrightarrow> isl (rq j) \<Longrightarrow>
   fst (requestWithRetry_loop rq m i d e) = rq (nat m)
   \<and> calls (snd (requestWithRetry_loop rq m i d e)) = [i..<Suc (nat m)]
   \<and> waits (snd (requestWithRetry_loop rq m i d e)) = map (\<lambda>j. d * 2 ^ (j - i)) [i..<nat m]"
proof (induction rq m i d e rule: requestWithRetry_loop.induct)
  case (1 rq m i d e)
  from "1.prems" have "isl (rq i)" by simp
  then obtain x where Inl: "rq i = Inl x" by (cases "rq i") auto
  show ?case
  proof (cases "int i = m")
    case True
    then have "nat m = i" by auto
    with True Inl show ?thesis
      by (subst (1 2 3) requestWithRetry_loop.simps) auto
  next
    case False
    with "1.prems" have le: "int (Suc i) \<le> m" by simp
    have all: "\<forall>j. Suc i \<le> j \<and> int j \<le> m \<longrightarrow> isl (rq j)" using "1.prems"(2) by auto
    note IH = "1.IH"[OF "1.prems"(1) Inl False le all]
    have step: "requestWithRetry_loop rq m i d e =
          (fst (requestWithRetry_loop rq m (Suc i) (d * 2) x),
           Call i # Wait d # snd (requestWithRetry_loop rq m (Suc i) (d * 2) x))"
      using Inl False "1.prems"
      by (subst requestWithRetry_loop.simps) (simp add: case_prod_beta)
    have lt: "i < nat m" using le by auto
    have a: "[i..<Suc (nat m)] = i # [Suc i..<Suc (nat m)]" using lt by (simp add: upt_conv_Cons)
    have b: "[i..<nat m] = i # [Suc i..<nat m]" using lt by (simp add: upt_conv_Cons)
    have c: "map (\<lambda>j. d * 2 * 2 ^ (j - Suc i)) [Suc i..<nat m] = map (\<lambda>j. d * 2 ^ (j - i)) [Suc i..<nat m]"
    proof (rule map_cong[OF refl])
      fix j assume "j \<in> set [Suc i..<nat m]"
      then have "j - i = Suc (j - Suc i)" by auto
      then show "d * 2 * 2 ^ (j - Suc i) = d * 2 ^ (j - i)" by simp
    qed
    show ?thesis using IH step a b c by simp
  qed
qed

lemma retry_four_attempts:
  assumes "\<forall>i. int i \<le> 3 \<longrightarrow> isl (rq i)"
  shows "requestWithRetry_loop rq 3 0 100 e =
     (rq 3, [Call 0, Wait 100, Call 1, Wait 200, Call 2, Wait 400, Call 3])"
proof -
  from assms obtain e0 e1 e2 e3 where
    e: "rq 0 = Inl e0" "rq (Suc 0) = Inl e1" "rq (Suc (Suc 0)) = Inl e2"
       "rq (Suc (Suc (Suc 0))) = Inl e3"
    by (metis isl_def of_nat_0 of_nat_Suc of_nat_le_iff of_nat_numeral numeral_3_eq_3
        le_Suc_eq le_refl)
  show ?thesis
    using e
    by (simp add: requestWithRetry_loop.simps[of _ _ 0] requestWithRetry_loop.simps[of _ _ "Suc 0"]
        requestWithRetry_loop.simps[of _ _ "Suc (Suc 0)"]
        requestWithRetry_loop.simps[of _ _ "Suc (Suc (Suc 0))"] numeral_2_eq_2 numeral_3_eq_3)
qed

text \<open>
  C2. For every sequence of exchanges, every \<open>maxRetries \<ge> 0\<close> and every \<open>delay\<close>: the
  wrapper calls \<open>request\<close> at most \<open>maxRetries + 1\<close> times, attempts \<open>0, 1, \<dots>, k\<close> in
  order, and its outcome is the outcome of attempt \<open>k\<close>, which is the first attempt that
  succeeded or else the last attempt allowed; when every attempt fails there are exactly
  \<open>maxRetries + 1\<close> attempts, the wait before attempt \<open>j + 1\<close> is \<open>delay * 2 ^ j\<close>, and
  the rejection is the one of the last attempt, unchanged. With \<open>maxRetries = 3\<close> and
  \<open>delay = 100\<close> against an endpoint that always fails: four attempts with waits of 100,
  200 and 400 between them, and the error of the fourth attempt is thrown.
\<close>

theorem requestWithRetry_backoff:
  fixes fetches :: "nat \<Rightarrow> 'p fetched"
  assumes "0 \<le> maxRetries"
  shows "length (calls (snd (requestWithRetry fetches maxRetries delay))) \<le> nat maxRetries + 1
    \<and> (\<exists>k. int k \<le> maxRetries
          \<and> calls (snd (requestWithRetry fetches maxRetries delay)) = [0..<Suc k]
          \<and> (\<forall>j<k. isl (request (fetches j)))
          \<and> fst (requestWithRetry fetches maxRetries delay) = request (fetches k)
          \<and> (isl (request (fetches k)) \<longrightarrow> int k = maxRetries))
    \<and> ((\<forall>j. int j \<le> maxRetries \<longrightarrow> isl (request (fetches j))) \<longrightarrow>
          fst (requestWithRetry fetches maxRetries delay) = request (fetches (nat maxRetries))
        \<and> calls (snd (requestWithRetry fetches maxRetries delay)) = [0..<Suc (nat maxRetries)]
        \<and> waits (snd (requestWithRetry fetches maxRetries delay))
            = map (\<lambda>j. delay * 2 ^ j) [0..<nat maxRetries])
    \<and> (\<forall>failing :: nat \<Rightarrow> 'p fetched. (\<forall>i. isl (request (failing i))) \<longrightarrow>
          requestWithRetry failing 3 100 =
            (request (failing 3), [Call 0, Wait 100, Call 1, Wait 200, Call 2, Wait 400, Call 3]))"
proof -
  let ?rq = "\<lambda>i. request (fetches i)"
  let ?run = "requestWithRetry fetches maxRetries delay"
  from assms have i0: "int 0 \<le> maxRetries" by simp
  from loop_calls[OF i0, of ?rq delay Undefined]
  obtain k where k: "int k \<le> maxRetries" "calls (snd ?run) = [0..<Suc k]"
      "\<forall>j. 0 \<le> j \<and> j < k \<longrightarrow> isl (?rq j)"
      "(case fst ?run of Inr v \<Rightarrow> ?rq k = Inr v | Inl x \<Rightarrow> int k = maxRetries \<and> ?rq k = Inl x)"
    unfolding requestWithRetry_def by blast
  have fst_eq: "fst ?run = ?rq k" using k(4) by (cases "fst ?run") auto
  have last: "isl (?rq k) \<longrightarrow> int k = maxRetries" using k(4) by (cases "fst ?run") auto
  have bound: "length (calls (snd ?run)) \<le> nat maxRetries + 1" using k(1,2) by simp
  have ex: "\<exists>k. int k \<le> maxRetries \<and> calls (snd ?run) = [0..<Suc k] \<and> (\<forall>j<k. isl (?rq j))
      \<and> fst ?run = ?rq k \<and> (isl (?rq k) \<longrightarrow> int k = maxRetries)"
    using k(1,2,3) fst_eq last by (intro exI[of _ k]) simp
  have allfail: "(\<forall>j. int j \<le> maxRetries \<longrightarrow> isl (?rq j)) \<longrightarrow>
          fst ?run = ?rq (nat maxRetries)
        \<and> calls (snd ?run) = [0..<Suc (nat maxRetries)]
        \<and> waits (snd ?run) = map (\<lambda>j. delay * 2 ^ j) [0..<nat maxRetries]"
  proof
    assume "\<forall>j. int j \<le> maxRetries \<longrightarrow> isl (?rq j)"
    then have "\<forall>j. 0 \<le> j \<and> int j \<le> maxRetries \<longrightarrow> isl (?rq j)" by simp
    from loop_all_fail[OF i0 this, of delay Undefined]
    show "fst ?run = ?rq (nat maxRetries)
        \<and> calls (snd ?run) = [0..<Suc (nat maxRetries)]
        \<and> waits (snd ?run) = map (\<lambda>j. delay * 2 ^ j) [0..<nat maxRetries]"
      unfolding requestWithRetry_def by simp
  qed
  have four: "\<forall>failing :: nat \<Rightarrow> 'p fetched. (\<forall>i. isl (request (failing i))) \<longrightarrow>
          requestWithRetry failing 3 100 =
            (request (failing 3), [Call 0, Wait 100, Call 1, Wait 200, Call 2, Wait 400, Call 3])"
    unfolding requestWithRetry_def
    by (intro allI impI, rule retry_four_attempts) simp
  show ?thesis using bound ex allfail four by blast
qed

text \<open>The endpoint of the witness is unreachable on every attempt.\<close>

theorem requestWithRetry_backoff_witness:
  "(0::int) \<le> 3
   \<and> fst (requestWithRetry (\<lambda>i. Rejected (TypeError [i]) :: unit fetched) 3 100)
       = Inl (TypeError [3])
   \<and> calls (snd (requestWithRetry (\<lambda>i. Rejected (TypeError [i]) :: unit fetched) 3 100))
       = [0, 1, 2, 3]
   \<and> waits (snd (requestWithRetry (\<lambda>i. Rejected (TypeError [i]) :: unit fetched) 3 100))
       = [100, 200, 400]"
proof -
  have h: "(0::int) \<le> 3" by simp
  have f: "\<forall>j. int j \<le> 3 \<longrightarrow> isl (request (Rejected (TypeError [j]) :: unit fetched))"
    by (simp add: request_def)
  have u3: "[0..<3] = [0, 1, 2]" and u4: "[0..<Suc 3] = [0, 1, 2, 3]"
    by (simp_all add: upt_rec)
  show ?thesis
    using requestWithRetry_backoff[OF h, of "\<lambda>i. Rejected (TypeError [i]) :: unit fetched" 100] f u3 u4
    by (simp add: request_def)
qed

section \<open>Failure classification of APIService.request\<close>





section \<open>ConditionBuilder: assigning keywords\<close>

lemma trim_snoc_whitespace:
  assumes "is_whitespace c"
  shows "trim (s @ [c]) = trim s"
proof (cases "\<forall>x \<in> set s. is_whitespace x")
  case True
  then have a: "dropWhile is_whitespace s = []"
    by (simp add: dropWhile_eq_Nil_conv)
  from True assms have "\<forall>x \<in> set (s @ [c]). is_whitespace x" by simp
  then have b: "dropWhile is_whitespace (s @ [c]) = []"
    by (simp only: dropWhile_eq_Nil_conv)
  show ?thesis by (simp add: trim_def a b)
next
  case False
  then obtain x where "x \<in> set s" "\<not> is_whitespace x" by blast
  then have "dropWhile is_whitespace (s @ [c]) = dropWhile is_whitespace s @ [c]"
    by (rule dropWhile_append1)
  then show ?thesis using assms by (simp add: trim_def)
qed

lemma displayed_span_text:
  assumes "215 \<notin> set kw" and "trim kw = kw"
  shows "displayed_keyword (span_text kw) = kw"
proof -
  have "remove1 215 (kw @ [32, 215]) = kw @ [32]"
    using assms(1) by (simp add: remove1_append)
  moreover have "is_whitespace 32" by (simp add: is_whitespace_def)
  ultimately show ?thesis
    using assms(2) by (simp add: displayed_keyword_def span_text_def trim_snoc_whitespace)
qed

text \<open>
  For a keyword without the multiplication sign and without white space at its ends, a
  second drop on the same zone changes nothing.
\<close>

lemma addKeywordToDropZone_again:
  assumes "215 \<notin> set kw" and "trim kw = kw"
  shows "addKeywordToDropZone (addKeywordToDropZone zone kw) kw = addKeywordToDropZone zone kw"
proof (cases "kw \<in> set (map displayed_keyword (dropped zone))")
  case True
  then show ?thesis by (simp add: addKeywordToDropZone_def)
next
  case False
  then show ?thesis
    using displayed_span_text[OF assms] by (simp add: addKeywordToDropZone_def)
qed

text \<open>
  More generally, while only such keywords are dropped on a row, its tags stay distinct
  and every keyword dropped has exactly one tag.
\<close>

lemma plain_keywords_one_tag_each:
  assumes "\<forall>t \<in> set ts. 215 \<notin> set t \<and> trim t = t"
    and "dropped zone = map span_text ks" and "distinct ks"
    and "\<forall>t \<in> set ks. 215 \<notin> set t \<and> trim t = t"
  shows "\<exists>ks'. dropped (foldl addKeywordToDropZone zone ts) = map span_text ks'
           \<and> distinct ks' \<and> set ks' = set ks \<union> set ts"
  using assms
proof (induction ts arbitrary: zone ks)
  case Nil
  then show ?case by auto
next
  case (Cons t ts)
  have shown: "map displayed_keyword (dropped zone) = ks"
    using Cons.prems(2,4) by (simp add: displayed_span_text map_idI)
  have a: "addKeywordToDropZone zone t =
      (if t \<in> set ks then zone else zone\<lparr>dropped := dropped zone @ [span_text t]\<rparr>)"
    unfolding addKeywordToDropZone_def Let_def shown by (rule refl)
  show ?case
  proof (cases "t \<in> set ks")
    case True
    then have "addKeywordToDropZone zone t = zone" by (simp add: a)
    with Cons.IH[of zone ks] Cons.prems True show ?thesis by auto
  next
    case False
    then have d: "dropped (addKeywordToDropZone zone t) = map span_text (ks @ [t])"
      using Cons.prems(2) by (simp add: a)
    from Cons.IH[of "addKeywordToDropZone zone t" "ks @ [t]"] Cons.prems False d
    show ?thesis by auto
  qed
qed

text \<open>
  C4 at a failing input. The presence test compares the trimmed text of the tags, with
  the first multiplication sign removed, against the keyword as dropped. A keyword that
  ends in a space (\<open>"wafer "\<close>) or contains the sign (\<open>"3\<times>3"\<close>, code units 51, 215, 51)
  is never found again: the second drop on the row adds a second tag, and the condition
  collected from the row lists the keyword twice.
\<close>

theorem assign_twice_duplicates:
  "dropped (assign 0 (str ''wafer '') (assign 0 (str ''wafer '') [createConditionRow]) ! 0)
     = [span_text (str ''wafer ''), span_text (str ''wafer '')]
   \<and> map keyword_list
       (collectSearchConditions
          (assign 0 (str ''wafer '') (assign 0 (str ''wafer '') [createConditionRow])))
     = [[str ''wafer'', str ''wafer'']]
   \<and> dropped (assign 0 [51, 215, 51] (assign 0 [51, 215, 51] [createConditionRow]) ! 0)
     = [span_text [51, 215, 51], span_text [51, 215, 51]]"
  by (simp add: assign_def addKeywordToDropZone_def createConditionRow_def span_text_def
      displayed_keyword_def trim_def is_whitespace_def str_def collectSearchConditions_def
      collect_row_def enumerate_eq_zip)

section \<open>ConditionBuilder: conditions generated from the keyword groups\<close>

lemma add_selectors [simp]:
  "field_selector (addKeywordToDropZone z t) = field_selector z"
  "logic_selector (addKeywordToDropZone z t) = logic_selector z"
  by (simp_all add: addKeywordToDropZone_def Let_def)

lemma foldl_add_selectors [simp]:
  "field_selector (foldl addKeywordToDropZone z ts) = field_selector z"
  "logic_selector (foldl addKeywordToDropZone z ts) = logic_selector z"
  by (induction ts arbitrary: z) simp_all














section \<open>Validation before the network\<close>

lemma length_trim: "length (trim s) \<le> length s"
proof -
  have "length (trim s) \<le> length (rev (dropWhile is_whitespace s))"
    unfolding trim_def
    using length_dropWhile_le[of is_whitespace "rev (dropWhile is_whitespace s)"] by simp
  also have "\<dots> \<le> length s" using length_dropWhile_le[of is_whitespace s] by simp
  finally show ?thesis .
qed

lemma validateApiKey_frame:
  "network (snd (validateApiKey s)) = network s"
  "app_isSearching (snd (validateApiKey s)) = app_isSearching s"
  "inputs (snd (validateApiKey s)) = inputs s"
  "bars (snd (validateApiKey s)) = bars s"
  "fst (validateApiKey s) \<Longrightarrow> snd (validateApiKey s) = s"
  "\<not> fst (validateApiKey s) \<Longrightarrow> \<exists>m. snd (validateApiKey s) = showError m s"
  by (auto simp: validateApiKey_def Let_def showError_def)

lemma finally_frame:
  "network (generateKeywords_finally s) = network s"
  "messages (generateKeywords_finally s) = messages s"
  by (simp_all add: generateKeywords_finally_def resetProgress_def)

text \<open>
  C7. A description shorter than 50 code units (the empty one included) makes
  \<open>SearchManager.generateKeywords\<close> throw the validation error before it touches the
  network. \<open>PatentSearchApp.generateKeywords\<close>, whose description is the trimmed value
  of the input field, returns without starting an exchange whenever that field or its
  trimmed value is that short: the network log is unchanged, exactly one error is shown,
  and it is the description error once the API key check and the busy check have
  passed.
\<close>

theorem short_description_no_network:
  assumes "length d < 50"
  shows "sm_generateKeywords_begin fresh d s = Inl (Error lit_too_short)
    \<and> (inputs s TechDescription = d \<or> getInputValue s TechDescription = d \<longrightarrow>
          fst (app_generateKeywords_begin fresh s) = None
        \<and> network (snd (app_generateKeywords_begin fresh s)) = network s
        \<and> (\<exists>m. messages (snd (app_generateKeywords_begin fresh s))
                  = messages s @ [ShowError m]
              \<and> (fst (validateApiKey s) \<and> \<not> app_isSearching s \<longrightarrow>
                    m = lit_enter_description \<or> m = lit_too_short)))"
proof (intro conjI impI)
  show "sm_generateKeywords_begin fresh d s = Inl (Error lit_too_short)"
    using assms by (simp add: sm_generateKeywords_begin_def)
next
  assume "inputs s TechDescription = d \<or> getInputValue s TechDescription = d"
  then have short: "length (getInputValue s TechDescription) < 50"
    using assms length_trim[of "inputs s TechDescription"]
    by (auto simp: getInputValue_def)
  let ?r = "app_generateKeywords_begin fresh s"
  show "fst ?r = None"
  proof (cases "fst (validateApiKey s)")
    case True
    with validateApiKey_frame(5)[OF True] short show ?thesis
      by (cases "validateApiKey s") (auto simp: app_generateKeywords_begin_def Let_def)
  next
    case False
    then show ?thesis
      by (cases "validateApiKey s") (auto simp: app_generateKeywords_begin_def)
  qed
  show "network (snd ?r) = network s"
  proof (cases "fst (validateApiKey s)")
    case True
    with validateApiKey_frame(5)[OF True] short show ?thesis
      by (cases "validateApiKey s")
        (auto simp: app_generateKeywords_begin_def Let_def finally_frame showError_def)
  next
    case False
    then show ?thesis using validateApiKey_frame(1)[of s]
      by (cases "validateApiKey s") (auto simp: app_generateKeywords_begin_def)
  qed
  show "\<exists>m. messages (snd ?r) = messages s @ [ShowError m]
      \<and> (fst (validateApiKey s) \<and> \<not> app_isSearching s \<longrightarrow>
            m = lit_enter_description \<or> m = lit_too_short)"
  proof (cases "fst (validateApiKey s)")
    case True
    with validateApiKey_frame(5)[OF True] short show ?thesis
      by (cases "validateApiKey s")
        (auto simp: app_generateKeywords_begin_def Let_def finally_frame showError_def)
  next
    case False
    from validateApiKey_frame(6)[OF False] obtain m where "snd (validateApiKey s) = showError m s"
      by blast
    with False show ?thesis
      by (cases "validateApiKey s") (auto simp: app_generateKeywords_begin_def showError_def)
  qed
qed

text \<open>A verified key and the 5-character description \<open>"wafer"\<close>.\<close>

theorem short_description_no_network_witness:
  "length (str ''wafer'') < 50
   \<and> inputs ((page_loaded (str ''s1'') :: unit state)
        \<lparr>app_apiKeyVerified := True,
         inputs := (\<lambda>i. [])(GpssApiKey := str ''0123456789abcdef'',
                              TechDescription := str ''wafer'')\<rparr>) TechDescription = str ''wafer''
   \<and> fst (app_generateKeywords_begin (str ''s2'')
        ((page_loaded (str ''s1'') :: unit state)
        \<lparr>app_apiKeyVerified := True,
         inputs := (\<lambda>i. [])(GpssApiKey := str ''0123456789abcdef'',
                              TechDescription := str ''wafer'')\<rparr>)) = None
   \<and> network (snd (app_generateKeywords_begin (str ''s2'')
        ((page_loaded (str ''s1'') :: unit state)
        \<lparr>app_apiKeyVerified := True,
         inputs := (\<lambda>i. [])(GpssApiKey := str ''0123456789abcdef'',
                              TechDescription := str ''wafer'')\<rparr>))) = []
   \<and> messages (snd (app_generateKeywords_begin (str ''s2'')
        ((page_loaded (str ''s1'') :: unit state)
        \<lparr>app_apiKeyVerified := True,
         inputs := (\<lambda>i. [])(GpssApiKey := str ''0123456789abcdef'',
                              TechDescription := str ''wafer'')\<rparr>))) = [ShowError lit_too_short]"
proof -
  let ?s = "(page_loaded (str ''s1'') :: unit state)
        \<lparr>app_apiKeyVerified := True,
         inputs := (\<lambda>i. [])(GpssApiKey := str ''0123456789abcdef'',
                              TechDescription := str ''wafer'')\<rparr>"
  have h: "length (str ''wafer'') < 50" by (simp add: str_def)
  have i: "inputs ?s TechDescription = str ''wafer''" by simp
  have k: "getInputValue ?s GpssApiKey = str ''0123456789abcdef''"
    by (simp add: getInputValue_def trim_def is_whitespace_def str_def)
  have v: "validateApiKey ?s = (True, ?s)"
    by (simp add: validateApiKey_def k) (simp add: str_def page_loaded_def)
  have b: "\<not> app_isSearching ?s" by (simp add: page_loaded_def)
  have g: "getInputValue ?s TechDescription = str ''wafer''"
    by (simp add: getInputValue_def trim_def is_whitespace_def str_def)
  have ne: "str ''wafer'' \<noteq> []" by (simp add: str_def)
  from short_description_no_network[OF h, where s="?s" and fresh="str ''s2''"] i
  have n: "fst (app_generateKeywords_begin (str ''s2'') ?s) = None"
    and w: "network (snd (app_generateKeywords_begin (str ''s2'') ?s)) = network ?s"
    by blast+
  have w0: "network ?s = []" by (simp add: page_loaded_def)
  have e: "app_generateKeywords_begin (str ''s2'') ?s
      = (None, generateKeywords_finally (showError lit_too_short ?s))"
    by (simp add: app_generateKeywords_begin_def v g b h ne)
  have m: "messages (snd (app_generateKeywords_begin (str ''s2'') ?s)) = [ShowError lit_too_short]"
    by (simp add: e finally_frame showError_def) (simp add: page_loaded_def)
  show ?thesis
  proof (intro conjI)
    show "length (str ''wafer'') < 50" by (rule h)
    show "inputs ?s TechDescription = str ''wafer''" by (rule i)
    show "fst (app_generateKeywords_begin (str ''s2'') ?s) = None" by (rule n)
    show "network (snd (app_generateKeywords_begin (str ''s2'') ?s)) = []"
      using w w0 by simp
    show "messages (snd (app_generateKeywords_begin (str ''s2'') ?s)) = [ShowError lit_too_short]"
      by (rule m)
  qed
qed

section \<open>The single-flight guard\<close>

lemma sm_manualSearch_begin_Inr:
  "sm_manualSearch_begin d k s = Inr (c, s') \<Longrightarrow> s' = s\<lparr>network := network s @ [c]\<rparr>"
  by (auto simp: sm_manualSearch_begin_def Let_def split: if_splits)


lemma executeSearch_begin_Some:
  assumes "executeSearch_begin s0 = (Some c, s)"
  shows "app_isSearching s" and "xl_isProcessing s = xl_isProcessing s0"
    and "\<not> app_isSearching s0"
proof -
  from assms have n: "\<not> app_isSearching s0"
    by (auto simp: executeSearch_begin_def split: if_splits)
  let ?s3 = "startProgressAnimation ProgressTech
      (updateProgress ProgressTech 30 (s0\<lparr>app_isSearching := True\<rparr>))"
  from assms n have "sm_manualSearch_begin (getInputValue s0 TechDescription)
      (getInputValue s0 GpssApiKey) ?s3 = Inr (c, s)"
    by (auto simp: executeSearch_begin_def Let_def split: sum.splits)
  from sm_manualSearch_begin_Inr[OF this] have s: "s = ?s3\<lparr>network := network ?s3 @ [c]\<rparr>" .
  show "app_isSearching s" "xl_isProcessing s = xl_isProcessing s0"
    by (simp_all add: s startProgressAnimation_def updateProgress_def)
  show "\<not> app_isSearching s0" by (rule n)
qed



lemma executeSearch_begin_busy:
  "app_isSearching s \<Longrightarrow> executeSearch_begin s = (None, showError lit_busy_search s)"
  by (simp add: executeSearch_begin_def)

text \<open>
  C1. A technical-description search that is waiting for the network has set the guard
  flag. With the flag set, the next call returns at once: no exchange is started, the
  only change to the state is the busy error appended to the messages, so the flag and
  the stored results of both stores are as before; the answer of the network plays no
  part.
\<close>

theorem executeSearch_busy_rejected:
  "(\<forall>s0 c. executeSearch_begin s0 = (Some c, s) \<longrightarrow> app_isSearching s)
   \<and> (app_isSearching s \<longrightarrow>
         executeSearch_begin s = (None, showError lit_busy_search s)
       \<and> network (snd (executeSearch_begin s)) = network s
       \<and> app_isSearching (snd (executeSearch_begin s))
       \<and> app_searchResults (snd (executeSearch_begin s)) = app_searchResults s
       \<and> sm_results_tech (snd (executeSearch_begin s)) = sm_results_tech s
       \<and> sm_results_condition (snd (executeSearch_begin s)) = sm_results_condition s
       \<and> messages (snd (executeSearch_begin s)) = messages s @ [ShowError lit_busy_search]
       \<and> (\<forall>render f. executeSearch render f s = showError lit_busy_search s))"
proof (intro conjI allI impI)
  fix s0 c assume "executeSearch_begin s0 = (Some c, s)"
  then show "app_isSearching s" by (rule executeSearch_begin_Some(1))
next
  assume b: "app_isSearching s"
  note e = executeSearch_begin_busy[OF b]
  show "executeSearch_begin s = (None, showError lit_busy_search s)" by (rule e)
  show "network (snd (executeSearch_begin s)) = network s" by (simp add: e showError_def)
  show "app_isSearching (snd (executeSearch_begin s))" using b by (simp add: e showError_def)
  show "app_searchResults (snd (executeSearch_begin s)) = app_searchResults s"
    by (simp add: e showError_def)
  show "sm_results_tech (snd (executeSearch_begin s)) = sm_results_tech s"
    by (simp add: e showError_def)
  show "sm_results_condition (snd (executeSearch_begin s)) = sm_results_condition s"
    by (simp add: e showError_def)
  show "messages (snd (executeSearch_begin s)) = messages s @ [ShowError lit_busy_search]"
    by (simp add: e showError_def)
  show "executeSearch render f s = showError lit_busy_search s" for render f
    by (simp add: executeSearch_def e)
qed

lemma ready_collect:
  "collectSearchConditions (rows (ready_page :: 'p state)) =
     [\<lparr>keyword_list = [str ''wafer''], field = AB, logic = AND, condition_index = 0\<rparr>]"
  by (simp add: ready_page_def collectSearchConditions_def collect_row_def enumerate_eq_zip
      span_text_def displayed_keyword_def trim_def is_whitespace_def str_def)

lemma ready_executeSearch_begin:
  "fst (executeSearch_begin (ready_page :: 'p state)) =
     Some (ConfirmedSearchCall
       \<lparr>rd_session_id = Some (str ''s1''), rd_description = [], rd_generated_keywords = [],
        rd_selected_keywords = [str ''wafer''], rd_custom_keywords = [],
        rd_user_code = str ''0123456789abcdef'', rd_max_results = 1000,
        rd_use_and_or_logic = False\<rparr>)"
proof -
  have a: "\<not> app_isSearching (ready_page :: 'p state)"
    by (simp add: ready_page_def page_loaded_def)
  have k: "getInputValue (ready_page :: 'p state) GpssApiKey = str ''0123456789abcdef''"
    "getInputValue (ready_page :: 'p state) TechDescription = []"
    by (simp_all add: ready_page_def getInputValue_def trim_def is_whitespace_def str_def)
  have t: "trim (str ''wafer'') = str ''wafer''" "str ''wafer'' \<noteq> []"
    by (simp_all add: trim_def is_whitespace_def str_def)
  have r: "rows (startProgressAnimation ProgressTech
      (updateProgress ProgressTech 30 ((ready_page :: 'p state)\<lparr>app_isSearching := True\<rparr>)))
      = rows (ready_page :: 'p state)"
    by (simp add: startProgressAnimation_def updateProgress_def)
  have g: "sm_generatedKeywords (ready_page :: 'p state) = []"
    "sm_currentSessionId (ready_page :: 'p state) = Some (str ''s1'')"
    by (simp_all add: ready_page_def page_loaded_def)
  show ?thesis
    by (simp add: executeSearch_begin_def a k Let_def sm_manualSearch_begin_def r ready_collect
        unique_def t extractGeneratedKeywords_def startProgressAnimation_def
        updateProgress_def g)
qed

text \<open>A second search while the first one of the ready page is waiting.\<close>

theorem executeSearch_busy_rejected_witness:
  "fst (executeSearch_begin (ready_page :: unit state)) \<noteq> None
   \<and> app_isSearching (snd (executeSearch_begin (ready_page :: unit state)))
   \<and> executeSearch_begin (snd (executeSearch_begin (ready_page :: unit state)))
       = (None, showError lit_busy_search (snd (executeSearch_begin (ready_page :: unit state))))
   \<and> network (snd (executeSearch_begin (snd (executeSearch_begin (ready_page :: unit state)))))
       = network (snd (executeSearch_begin (ready_page :: unit state)))"
proof -
  let ?s = "snd (executeSearch_begin (ready_page :: unit state))"
  from ready_executeSearch_begin[where 'p=unit]
  obtain c where c: "executeSearch_begin (ready_page :: unit state) = (Some c, ?s)"
    by (cases "executeSearch_begin (ready_page :: unit state)") auto
  note main = executeSearch_busy_rejected[of ?s]
  from main c have b: "app_isSearching ?s" by blast
  from main b have e: "executeSearch_begin ?s = (None, showError lit_busy_search ?s)"
    and n: "network (snd (executeSearch_begin ?s)) = network ?s" by blast+
  show ?thesis
  proof (intro conjI)
    show "fst (executeSearch_begin (ready_page :: unit state)) \<noteq> None"
      by (simp add: ready_executeSearch_begin)
    show "app_isSearching ?s" by (rule b)
    show "executeSearch_begin ?s = (None, showError lit_busy_search ?s)" by (rule e)
    show "network (snd (executeSearch_begin ?s)) = network ?s" by (rule n)
  qed
qed

section \<open>One flag for two searches, another for the file analysis\<close>









section \<open>Every exit resets the guard and the progress bar\<close>

lemma idle_after_finally:
  "search_idle ProgressTech (executeSearch_finally x)"
  "search_idle ProgressCondition (conditionSearch_finally x)"
  "excel_idle (analyzeExcel_finally x)"
  by (simp_all add: search_idle_def excel_idle_def executeSearch_finally_def
      conditionSearch_finally_def analyzeExcel_finally_def resetProgress_def at_rest_def)

lemma idle_showError:
  "search_idle i (showError m s) = search_idle i s"
  "excel_idle (showError m s) = excel_idle s"
  by (simp_all add: search_idle_def excel_idle_def showError_def)

lemma executeSearch_resume_finally:
  "\<exists>x. executeSearch_resume render f s = executeSearch_finally x"
  by (cases "sm_manualSearch_resume f s"; cases "fst (sm_manualSearch_resume f s)")
    (auto simp: executeSearch_resume_def)

lemma startConditionSearch_resume_finally:
  "\<exists>x. startConditionSearch_resume render f s = conditionSearch_finally x"
  by (cases "sm_conditionSearch_resume f s"; cases "fst (sm_conditionSearch_resume f s)")
    (auto simp: startConditionSearch_resume_def)

lemma executeSearch_exit:
  assumes "\<not> app_isSearching s"
  shows "search_idle ProgressTech (executeSearch render f s)"
proof (cases "executeSearch_begin s")
  case (Pair w s')
  show ?thesis
  proof (cases w)
    case None
    with Pair assms have "\<exists>x. s' = executeSearch_finally x"
      by (auto simp: executeSearch_begin_def Let_def split: sum.splits)
    then show ?thesis using Pair None by (auto simp: executeSearch_def idle_after_finally)
  next
    case (Some c)
    then show ?thesis
      using Pair executeSearch_resume_finally[of render f s']
      by (auto simp: executeSearch_def idle_after_finally)
  qed
qed

lemma startConditionSearch_exit:
  assumes "search_idle ProgressCondition s"
  shows "search_idle ProgressCondition (startConditionSearch fresh fresh2 render f s)"
proof (cases "fst (validateApiKey s)")
  case False
  from validateApiKey_frame(6)[OF False] obtain m where m: "snd (validateApiKey s) = showError m s"
    by blast
  with False have "startConditionSearch fresh fresh2 render f s = showError m s"
    by (cases "validateApiKey s")
      (auto simp: startConditionSearch_def startConditionSearch_begin_def)
  then show ?thesis using assms by (simp add: idle_showError)
next
  case True
  then have v: "validateApiKey s = (True, s)"
    using validateApiKey_frame(5)[OF True] by (cases "validateApiKey s") simp
  from assms have n: "\<not> app_isSearching s" by (simp add: search_idle_def)
  show ?thesis
  proof (cases "startConditionSearch_begin fresh fresh2 s")
    case (Pair w s')
    show ?thesis
    proof (cases w)
      case None
      with Pair v n have "\<exists>x. s' = conditionSearch_finally x"
        by (auto simp: startConditionSearch_begin_def Let_def split: sum.splits)
      then show ?thesis
        using Pair None by (auto simp: startConditionSearch_def idle_after_finally)
    next
      case (Some c)
      then show ?thesis
        using Pair startConditionSearch_resume_finally[of render f s']
        by (auto simp: startConditionSearch_def idle_after_finally)
    qed
  qed
qed

lemma analyzeExcel_exit:
  assumes "excel_idle s"
  shows "excel_idle (analyzeExcel render f s)"
proof (cases "xl_selectedFile s")
  case None
  then show ?thesis
    using assms by (simp add: analyzeExcel_def analyzeExcel_begin_def idle_showError)
next
  case (Some selected)
  from assms have "\<not> xl_isProcessing s" by (simp add: excel_idle_def)
  with Some show ?thesis
    by (simp add: analyzeExcel_def analyzeExcel_begin_def Let_def analyzeExcel_resume_def
        idle_after_finally)
qed

text \<open>
  C5. Whatever the network answers (a success, a failure response, a rejection) and
  even when rendering the results throws, the part of each workflow that runs after
  the answer ends with the guard flag clear and the progress bar at rest. So does the
  whole call, entered with the workflow idle, whether it ends before the network (a
  validation rejection) or after it.
\<close>

theorem guard_reset_on_every_exit:
  "search_idle ProgressTech (executeSearch_resume render f s)
   \<and> search_idle ProgressCondition (startConditionSearch_resume render f s)
   \<and> excel_idle (analyzeExcel_resume render f s)
   \<and> (\<not> app_isSearching s \<longrightarrow> search_idle ProgressTech (executeSearch render f s))
   \<and> (search_idle ProgressCondition s \<longrightarrow>
        search_idle ProgressCondition (startConditionSearch fresh fresh2 render f s))
   \<and> (excel_idle s \<longrightarrow> excel_idle (analyzeExcel render f s))"
proof (intro conjI impI)
  show "search_idle ProgressTech (executeSearch_resume render f s)"
    using executeSearch_resume_finally[of render f s] by (auto simp: idle_after_finally)
  show "search_idle ProgressCondition (startConditionSearch_resume render f s)"
    using startConditionSearch_resume_finally[of render f s] by (auto simp: idle_after_finally)
  show "excel_idle (analyzeExcel_resume render f s)"
    by (simp add: analyzeExcel_resume_def idle_after_finally)
  show "search_idle ProgressTech (executeSearch render f s)" if "\<not> app_isSearching s"
    by (rule executeSearch_exit[OF that])
  show "search_idle ProgressCondition (startConditionSearch fresh fresh2 render f s)"
    if "search_idle ProgressCondition s"
    by (rule startConditionSearch_exit[OF that])
  show "excel_idle (analyzeExcel render f s)" if "excel_idle s"
    by (rule analyzeExcel_exit[OF that])
qed

lemma ready_idle:
  "\<not> app_isSearching (ready_page :: 'p state)"
  "search_idle ProgressCondition (ready_page :: 'p state)"
  "excel_idle (ready_page :: 'p state)"
  by (simp_all add: search_idle_def excel_idle_def ready_page_def page_loaded_def)

text \<open>The three workflows on the ready page, with the network unreachable.\<close>

theorem guard_reset_on_every_exit_witness:
  "\<not> app_isSearching (ready_page :: unit state)
   \<and> search_idle ProgressCondition (ready_page :: unit state)
   \<and> excel_idle (ready_page :: unit state)
   \<and> search_idle ProgressTech
       (executeSearch (\<lambda>rs. None) (Rejected (TypeError (str ''Failed to fetch'')))
          (ready_page :: unit state))
   \<and> search_idle ProgressCondition
       (startConditionSearch (str ''s2'') (str ''s3'') (\<lambda>rs. None)
          (Rejected (TypeError (str ''Failed to fetch''))) (ready_page :: unit state))
   \<and> excel_idle
       (analyzeExcel (\<lambda>rs. None) (Rejected (TypeError (str ''Failed to fetch'')))
          (ready_page :: unit state))"
proof -
  note m = guard_reset_on_every_exit[where s="ready_page :: unit state"
      and render="\<lambda>rs. None" and f="Rejected (TypeError (str ''Failed to fetch''))"
      and fresh="str ''s2''" and ?fresh2.0="str ''s3''"]
  note t = m[THEN conjunct2, THEN conjunct2, THEN conjunct2]
  show ?thesis
  proof (intro conjI)
    show "\<not> app_isSearching (ready_page :: unit state)" by (rule ready_idle(1))
    show "search_idle ProgressCondition (ready_page :: unit state)" by (rule ready_idle(2))
    show "excel_idle (ready_page :: unit state)" by (rule ready_idle(3))
    show "search_idle ProgressTech
       (executeSearch (\<lambda>rs. None) (Rejected (TypeError (str ''Failed to fetch'')))
          (ready_page :: unit state))"
      by (rule t[THEN conjunct1, THEN mp, OF ready_idle(1)])
    show "search_idle ProgressCondition
       (startConditionSearch (str ''s2'') (str ''s3'') (\<lambda>rs. None)
          (Rejected (TypeError (str ''Failed to fetch''))) (ready_page :: unit state))"
      by (rule t[THEN conjunct2, THEN conjunct1, THEN mp, OF ready_idle(2)])
    show "excel_idle
       (analyzeExcel (\<lambda>rs. None) (Rejected (TypeError (str ''Failed to fetch'')))
          (ready_page :: unit state))"
      by (rule t[THEN conjunct2, THEN conjunct2, THEN mp, OF ready_idle(3)])
  qed
qed

section \<open>Empty results and export\<close>

lemma sm_exportToExcel_empty:
  assumes "sm_searchResults s t = None \<or> sm_searchResults s t = Some []"
  shows "sm_exportToExcel t s = (Inl (Error lit_no_export_data), s)"
  using assms by (auto simp: sm_exportToExcel_def)

lemma executeSearch_resume_empty:
  assumes "ok h" and "body h = Inr r" and "success r" and "result_list r = []"
  shows "sm_results_tech (executeSearch_resume render (Responded h) s) = Some []"
    and "app_searchResults (executeSearch_resume render (Responded h) s) Tech = Some []"
    and "xlsx_written (executeSearch_resume render (Responded h) s) = xlsx_written s"
proof -
  have rq: "request (Responded h) = Inr r" using assms(1,2) by (simp add: request_def)
  have m: "sm_manualSearch_resume (Responded h) s = (Inr r, s\<lparr>sm_results_tech := Some []\<rparr>)"
    using assms(3,4) by (simp add: sm_manualSearch_resume_def rq)
  let ?s1 = "completeProgress ProgressTech (s\<lparr>sm_results_tech := Some []\<rparr>)"
  have c: "completeTechSearch render r ?s1
      = (None, ?s1\<lparr>app_searchResults := (app_searchResults ?s1)(Tech := Some [])\<rparr>)"
    using assms(4) by (simp add: completeTechSearch_def Let_def)
  have e: "executeSearch_resume render (Responded h) s =
      executeSearch_finally
        (showSuccess
           (lit_search_done_a @ show_nat (case total_found r of None \<Rightarrow> 0 | Some n \<Rightarrow> n)
              @ lit_found_b)
           (if \<not> chat_chatEnabled (?s1\<lparr>app_searchResults := (app_searchResults ?s1)(Tech := Some [])\<rparr>)
            then enableChat (?s1\<lparr>app_searchResults := (app_searchResults ?s1)(Tech := Some [])\<rparr>)
            else ?s1\<lparr>app_searchResults := (app_searchResults ?s1)(Tech := Some [])\<rparr>))"
    using assms(3) by (simp add: executeSearch_resume_def m c)
  show "sm_results_tech (executeSearch_resume render (Responded h) s) = Some []"
    by (simp add: e executeSearch_finally_def resetProgress_def showSuccess_def enableChat_def
        updateMemoryStatus_begin_def completeProgress_def)
  show "app_searchResults (executeSearch_resume render (Responded h) s) Tech = Some []"
    by (simp add: e executeSearch_finally_def resetProgress_def showSuccess_def enableChat_def
        updateMemoryStatus_begin_def completeProgress_def)
  show "xlsx_written (executeSearch_resume render (Responded h) s) = xlsx_written s"
    by (simp add: e executeSearch_finally_def resetProgress_def showSuccess_def enableChat_def
        updateMemoryStatus_begin_def completeProgress_def)
qed

text \<open>
  C8. When the confirmed search is answered with success and an empty list (\<open>results\<close>
  is \<open>[]\<close> and \<open>search_results\<close> is absent or \<open>[]\<close>), the empty list becomes the
  tech entry of both stores, and the export of it fails. In any state, exporting a mode
  whose stored list is empty or absent throws the "no data to export" error and hands
  nothing to the spreadsheet library; the caller in PatentSearchApp shows that error.
\<close>

theorem empty_results_stored_and_not_exported:
  "(ok h \<and> body h = Inr r \<and> success r \<and> results r = Some []
      \<and> (search_results r = None \<or> search_results r = Some []) \<longrightarrow>
        sm_results_tech (executeSearch_resume render (Responded h) s) = Some []
      \<and> app_searchResults (executeSearch_resume render (Responded h) s) Tech = Some []
      \<and> fst (sm_exportToExcel Tech (executeSearch_resume render (Responded h) s))
          = Inl (Error lit_no_export_data)
      \<and> xlsx_written (snd (sm_exportToExcel Tech (executeSearch_resume render (Responded h) s)))
          = xlsx_written s)
   \<and> (sm_searchResults s t = None \<or> sm_searchResults s t = Some [] \<longrightarrow>
        sm_exportToExcel t s = (Inl (Error lit_no_export_data), s)
      \<and> app_exportToExcel t s
          = showError (lit_export_failed_prefix @ lit_no_export_data) s
      \<and> xlsx_written (app_exportToExcel t s) = xlsx_written s)"
proof (intro conjI impI)
  assume a: "ok h \<and> body h = Inr r \<and> success r \<and> results r = Some []
      \<and> (search_results r = None \<or> search_results r = Some [])"
  then have e: "result_list r = []" by (auto simp: result_list_def)
  let ?s' = "executeSearch_resume render (Responded h) s"
  from a e have 1: "sm_results_tech ?s' = Some []"
    and 2: "app_searchResults ?s' Tech = Some []"
    and 3: "xlsx_written ?s' = xlsx_written s"
    by (simp_all add: executeSearch_resume_empty)
  from 1 have x: "sm_exportToExcel Tech ?s' = (Inl (Error lit_no_export_data), ?s')"
    by (intro sm_exportToExcel_empty) simp
  show "sm_results_tech ?s' = Some []" by (rule 1)
  show "app_searchResults ?s' Tech = Some []" by (rule 2)
  show "fst (sm_exportToExcel Tech ?s') = Inl (Error lit_no_export_data)" by (simp add: x)
  show "xlsx_written (snd (sm_exportToExcel Tech ?s')) = xlsx_written s" by (simp add: x 3)
next
  assume a: "sm_searchResults s t = None \<or> sm_searchResults s t = Some []"
  note x = sm_exportToExcel_empty[OF a]
  show "sm_exportToExcel t s = (Inl (Error lit_no_export_data), s)" by (rule x)
  show "app_exportToExcel t s = showError (lit_export_failed_prefix @ lit_no_export_data) s"
    by (simp add: app_exportToExcel_def x)
  show "xlsx_written (app_exportToExcel t s) = xlsx_written s"
    by (simp add: app_exportToExcel_def x showError_def)
qed

text \<open>
  The search of the ready page answered with \<open>{"success": true, "results": []}\<close>, and
  the export of the condition results of a page on which no condition search has run.
\<close>

theorem empty_results_stored_and_not_exported_witness:
  "ok \<lparr>status = 200, statusText = str ''OK'',
       body = Inr (empty_object\<lparr>success := True, results := Some ([] :: unit list)\<rparr>)\<rparr>
   \<and> sm_results_tech
       (executeSearch_resume (\<lambda>rs. None)
          (Responded \<lparr>status = 200, statusText = str ''OK'',
             body = Inr (empty_object\<lparr>success := True, results := Some ([] :: unit list)\<rparr>)\<rparr>)
          (snd (executeSearch_begin ready_page))) = Some []
   \<and> fst (sm_exportToExcel Tech
       (executeSearch_resume (\<lambda>rs. None)
          (Responded \<lparr>status = 200, statusText = str ''OK'',
             body = Inr (empty_object\<lparr>success := True, results := Some ([] :: unit list)\<rparr>)\<rparr>)
          (snd (executeSearch_begin ready_page)))) = Inl (Error lit_no_export_data)
   \<and> sm_searchResults (ready_page :: unit state) Condition = None
   \<and> sm_exportToExcel Condition (ready_page :: unit state)
       = (Inl (Error lit_no_export_data), ready_page)"
proof -
  let ?r = "empty_object\<lparr>success := True, results := Some ([] :: unit list)\<rparr>"
  let ?h = "\<lparr>status = 200, statusText = str ''OK'', body = Inr ?r\<rparr>"
  let ?s = "snd (executeSearch_begin (ready_page :: unit state))"
  have o: "ok ?h" by (simp add: ok_def)
  have p: "ok ?h \<and> body ?h = Inr ?r \<and> success ?r \<and> results ?r = Some []
      \<and> (search_results ?r = None \<or> search_results ?r = Some [])"
    by (simp add: ok_def empty_object_def)
  have q: "sm_searchResults (ready_page :: unit state) Condition = None"
    by (simp add: ready_page_def page_loaded_def)
  note m1 = empty_results_stored_and_not_exported[where h="?h" and r="?r" and s="?s"
      and render="\<lambda>rs. None", THEN conjunct1, THEN mp, OF p]
  note m2 = empty_results_stored_and_not_exported[where s="ready_page :: unit state"
      and t=Condition, THEN conjunct2, THEN mp, OF disjI1, OF q]
  show ?thesis
  proof (intro conjI)
    show "ok ?h" by (rule o)
    show "sm_results_tech (executeSearch_resume (\<lambda>rs. None) (Responded ?h) ?s) = Some []"
      by (rule m1[THEN conjunct1])
    show "fst (sm_exportToExcel Tech (executeSearch_resume (\<lambda>rs. None) (Responded ?h) ?s))
        = Inl (Error lit_no_export_data)"
      by (rule m1[THEN conjunct2, THEN conjunct2, THEN conjunct1])
    show "sm_searchResults (ready_page :: unit state) Condition = None" by (rule q)
    show "sm_exportToExcel Condition (ready_page :: unit state)
        = (Inl (Error lit_no_export_data), ready_page)"
      by (rule m2[THEN conjunct1])
  qed
qed

section \<open>The chat transcript\<close>

lemma history_updateMemoryStatus:
  "chat_chatHistory (updateMemoryStatus f s) = chat_chatHistory s"
  by (simp add: updateMemoryStatus_def updateMemoryStatus_resume_def
      updateMemoryStatus_begin_def split: sum.splits)

text \<open>
  C9. \<open>clearChatMemory\<close> removes no turn from \<open>chatHistory\<close>: the transcript before the
  call is a prefix of the transcript after it, which is the same transcript or, when
  the backend confirmed, the same with one system turn appended. The only exchanges it
  starts are the clear-memory call and, after a confirmation by the backend, the
  memory-status call.
\<close>

theorem clearChatMemory_keeps_transcript:
  "prefix (chat_chatHistory s) (chat_chatHistory (clearChatMemory confirmed now f1 f2 s))
   \<and> (chat_chatHistory (clearChatMemory confirmed now f1 f2 s) = chat_chatHistory s
      \<or> chat_chatHistory (clearChatMemory confirmed now f1 f2 s)
          = chat_chatHistory s @
              [\<lparr>turn_type = System, content = lit_memory_cleared_turn, memoryMode = False,
                timestamp = now\<rparr>])
   \<and> (\<exists>cs. network (clearChatMemory confirmed now f1 f2 s) = network s @ cs
          \<and> set cs \<subseteq> {ClearMemoryCall (chat_currentSessionId s),
                        MemoryStatusCall (chat_currentSessionId s)})"
proof -
  let ?s' = "clearChatMemory confirmed now f1 f2 s"
  have h: "chat_chatHistory ?s' = chat_chatHistory s
      \<or> chat_chatHistory ?s' = chat_chatHistory s @
              [\<lparr>turn_type = System, content = lit_memory_cleared_turn, memoryMode = False,
                timestamp = now\<rparr>]"
    by (simp add: clearChatMemory_def Let_def showError_def showSuccess_def
        history_updateMemoryStatus addChatMessage_def split: sum.splits)
  have n: "\<exists>cs. network ?s' = network s @ cs
          \<and> set cs \<subseteq> {ClearMemoryCall (chat_currentSessionId s),
                        MemoryStatusCall (chat_currentSessionId s)}"
  proof (cases "truthy (chat_currentSessionId s) \<and> confirmed")
    case False
    then have "network ?s' = network s @ []"
      by (auto simp: clearChatMemory_def showError_def)
    then show ?thesis by (intro exI[of _ "[]"]) simp
  next
    case True
    let ?c = "ClearMemoryCall (chat_currentSessionId s)"
    let ?m = "MemoryStatusCall (chat_currentSessionId s)"
    from True have "network ?s' = network s @ [?c] \<or> network ?s' = network s @ [?c, ?m]"
      by (auto simp: clearChatMemory_def Let_def showError_def showSuccess_def
          updateMemoryStatus_def updateMemoryStatus_resume_def updateMemoryStatus_begin_def
          addChatMessage_def split: sum.splits)
    then show ?thesis
    proof
      assume "network ?s' = network s @ [?c]"
      then show ?thesis by (intro exI[of _ "[?c]"]) simp
    next
      assume "network ?s' = network s @ [?c, ?m]"
      then show ?thesis by (intro exI[of _ "[?c, ?m]"]) simp
    qed
  qed
  from h have p: "prefix (chat_chatHistory s) (chat_chatHistory ?s')" by auto
  show ?thesis using p h n by blast
qed

text \<open>A transcript of one user turn, cleared with the backend's confirmation.\<close>

theorem clearChatMemory_keeps_transcript_witness:
  "prefix
     [\<lparr>turn_type = User, content = str ''hi'', memoryMode = True, timestamp = str ''t0''\<rparr>]
     (chat_chatHistory
        (clearChatMemory True (str ''t1'')
           (Responded \<lparr>status = 200, statusText = str ''OK'',
              body = Inr (empty_object\<lparr>success := True\<rparr>)\<rparr>)
           (Rejected (TypeError (str ''Failed to fetch'')))
           ((ready_page :: unit state)
              \<lparr>chat_chatHistory :=
                 [\<lparr>turn_type = User, content = str ''hi'', memoryMode = True,
                   timestamp = str ''t0''\<rparr>]\<rparr>)))
   \<and> length (chat_chatHistory
        (clearChatMemory True (str ''t1'')
           (Responded \<lparr>status = 200, statusText = str ''OK'',
              body = Inr (empty_object\<lparr>success := True\<rparr>)\<rparr>)
           (Rejected (TypeError (str ''Failed to fetch'')))
           ((ready_page :: unit state)
              \<lparr>chat_chatHistory :=
                 [\<lparr>turn_type = User, content = str ''hi'', memoryMode = True,
                   timestamp = str ''t0''\<rparr>]\<rparr>))) = 2"
proof -
  let ?u = "\<lparr>turn_type = User, content = str ''hi'', memoryMode = True, timestamp = str ''t0''\<rparr>"
  let ?s = "(ready_page :: unit state)\<lparr>chat_chatHistory := [?u]\<rparr>"
  let ?f1 = "Responded \<lparr>status = 200, statusText = str ''OK'',
              body = Inr (empty_object\<lparr>success := True\<rparr> :: unit response)\<rparr>"
  let ?f2 = "Rejected (TypeError (str ''Failed to fetch'')) :: unit fetched"
  note m = clearChatMemory_keeps_transcript[where s="?s" and confirmed=True
      and now="str ''t1''" and ?f1.0="?f1" and ?f2.0="?f2"]
  have h: "chat_chatHistory ?s = [?u]" by simp
  have t: "truthy (chat_currentSessionId (ready_page :: unit state))"
    "chat_messages_element (ready_page :: unit state)"
    by (simp_all add: ready_page_def page_loaded_def truthy_def str_def)
  have r: "request ?f1 = Inr (empty_object\<lparr>success := True\<rparr>)"
    by (simp add: request_def ok_def)
  have l: "length (chat_chatHistory (clearChatMemory True (str ''t1'') ?f1 ?f2 ?s)) = 2"
    by (simp add: clearChatMemory_def t r Let_def showSuccess_def history_updateMemoryStatus
        addChatMessage_def)
  show ?thesis
  proof (intro conjI)
    show "prefix [?u] (chat_chatHistory (clearChatMemory True (str ''t1'') ?f1 ?f2 ?s))"
      using m[THEN conjunct1] h by simp
    show "length (chat_chatHistory (clearChatMemory True (str ''t1'') ?f1 ?f2 ?s)) = 2"
      by (rule l)
  qed
qed

end
